theory Spec2Isabelle
  imports Complex_Main "HOL-Library.Sublist" "HOL-Library.AList"
begin

section \<open>Values of the Python program\<close>

text \<open>
  The program computes with Python and numpy floating-point numbers. They are modelled
  here as exact reals: rounding is not represented, and every property below is a
  property of the exact arithmetic the code spells out. Dates are day numbers
  (\<open>int\<close>), so that the difference of two dates is their distance in days.
  Where Python raises, the model returns \<open>Inl\<close> of the exception.
\<close>

datatype error = KeyError | IndexError | ValueError | OverflowError | ZeroDivisionError

text \<open>Python's \<open>int(x)\<close> on a float truncates towards zero.\<close>

definition py_int :: "real \<Rightarrow> int" where
  "py_int x = (if 0 \<le> x then \<lfloor>x\<rfloor> else \<lceil>x\<rceil>)"

section \<open>The backtest engine (backtest.py, backtest_strategy)\<close>

text \<open>
  One row of the data frame as the loop over one signal column reads it:
  \<open>data.index[i]\<close>, \<open>data['Close'].iloc[i]\<close> and \<open>data[signal_col].iloc[i]\<close>.
\<close>

record bar =
  bar_date :: int
  bar_close :: real
  bar_signal :: real

text \<open>
  A ledger entry. The source appends dictionaries with the keys date, type, price,
  quantity, remaining capital, and either cost (type Buy) or proceeds (types Sell and
  ForcedClose); \<open>t_cash_flow\<close> is the cost of a Buy and the proceeds of a closing entry.
\<close>

datatype trade_kind = Buy | Sell | ForcedClose

record trade =
  t_date :: int
  t_kind :: trade_kind
  t_price :: real
  t_shares :: int
  t_cash_flow :: real
  t_remaining :: real

text \<open>The variables \<open>capital\<close>, \<open>position\<close> and \<open>trades\<close> of the loop.\<close>

record state =
  capital :: real
  position :: int
  trades :: "trade list"

text \<open>
  The body of \<open>for i in range(1, len(data))\<close>. A close price of zero on an entry signal
  makes \<open>trade_capital / price\<close> infinite (or not a number when the capital is zero too),
  and \<open>int\<close> of that raises.
\<close>

definition step :: "real \<Rightarrow> state \<Rightarrow> bar \<Rightarrow> error + state" where
  "step position_size s b =
     (if bar_signal b > 0 \<and> position s = 0 then
        (let trade_capital = capital s * position_size in
         if bar_close b = 0 then
           (if trade_capital = 0 then Inl ValueError else Inl OverflowError)
         else
           (let shares = py_int (trade_capital / bar_close b) in
            if shares > 0 then
              (let cost = real_of_int shares * bar_close b;
                   capital' = capital s - cost
               in Inr \<lparr>capital = capital', position = shares,
                        trades = trades s @
                          [\<lparr>t_date = bar_date b, t_kind = Buy, t_price = bar_close b,
                            t_shares = shares, t_cash_flow = cost,
                            t_remaining = capital'\<rparr>]\<rparr>)
            else Inr s))
      else if bar_signal b < 0 \<and> position s > 0 then
        (let proceeds = real_of_int (position s) * bar_close b;
             capital' = capital s + proceeds
         in Inr \<lparr>capital = capital', position = 0,
                  trades = trades s @
                    [\<lparr>t_date = bar_date b, t_kind = Sell, t_price = bar_close b,
                      t_shares = position s, t_cash_flow = proceeds,
                      t_remaining = capital'\<rparr>]\<rparr>)
      else Inr s)"

fun run_bars :: "real \<Rightarrow> state \<Rightarrow> bar list \<Rightarrow> error + state" where
  "run_bars position_size s [] = Inr s"
| "run_bars position_size s (b # bs) =
     (case step position_size s b of
        Inl e \<Rightarrow> Inl e
      | Inr s' \<Rightarrow> run_bars position_size s' bs)"

text \<open>
  Lines 73 to 85: a position still open after the loop is closed at
  \<open>data['Close'].iloc[-1]\<close>, dated \<open>data.index[-1]\<close>. The variable \<open>position\<close> itself
  is not reset there; nothing reads it afterwards.
\<close>

definition forced_close :: "bar list \<Rightarrow> state \<Rightarrow> error + state" where
  "forced_close data s =
     (if position s > 0 then
        (case data of
           [] \<Rightarrow> Inl IndexError
         | _ # _ \<Rightarrow>
           (let last_price = bar_close (last data);
                proceeds = real_of_int (position s) * last_price;
                capital' = capital s + proceeds
            in Inr (s\<lparr>capital := capital',
                      trades := trades s @
                        [\<lparr>t_date = bar_date (last data), t_kind = ForcedClose,
                          t_price = last_price, t_shares = position s,
                          t_cash_flow = proceeds, t_remaining = capital'\<rparr>]\<rparr>)))
      else Inr s)"

text \<open>
  The statistics of lines 92 to 132. \<open>buy_trades\<close> and \<open>sell_trades\<close> are the ledger
  filtered by type; the loop \<open>for i in range(min_count)\<close> reads the \<open>i\<close>-th row of
  each, which is the \<open>i\<close>-th pair of \<open>zip buy_trades sell_trades\<close>.
\<close>

definition buy_trades :: "trade list \<Rightarrow> trade list" where
  "buy_trades ts = filter (\<lambda>t. t_kind t = Buy) ts"

definition sell_trades :: "trade list \<Rightarrow> trade list" where
  "sell_trades ts = filter (\<lambda>t. t_kind t = Sell \<or> t_kind t = ForcedClose) ts"

record tally =
  winning_trades :: nat
  losing_trades :: nat
  tally_profit :: real
  tally_loss :: real
  holding_days :: int

definition trade_profit :: "trade \<times> trade \<Rightarrow> real" where
  "trade_profit p = (t_price (snd p) - t_price (fst p)) * real_of_int (t_shares (fst p))"

definition tally_pair :: "tally \<Rightarrow> trade \<times> trade \<Rightarrow> tally" where
  "tally_pair a p =
     (let a' = (if trade_profit p > 0
                then a\<lparr>winning_trades := winning_trades a + 1,
                       tally_profit := tally_profit a + trade_profit p\<rparr>
                else a\<lparr>losing_trades := losing_trades a + 1,
                       tally_loss := tally_loss a + trade_profit p\<rparr>)
      in a'\<lparr>holding_days := holding_days a' + (t_date (snd p) - t_date (fst p))\<rparr>)"

definition tally_trades :: "trade list \<Rightarrow> tally" where
  "tally_trades ts =
     foldl tally_pair
       \<lparr>winning_trades = 0, losing_trades = 0, tally_profit = 0, tally_loss = 0,
        holding_days = 0\<rparr>
       (zip (buy_trades ts) (sell_trades ts))"

datatype ratio = Finite real | Infinity

record summary =
  initial_capital :: real
  final_capital :: real
  total_return :: real
  trade_count :: nat
  win_rate :: real
  avg_holding_days :: real
  total_profit :: real
  total_loss :: real
  profit_factor :: ratio
  ledger :: "trade list"

definition summarize :: "real \<Rightarrow> real \<Rightarrow> trade list \<Rightarrow> summary" where
  "summarize initial final ts =
     (if length ts > 0 then
        (let a = tally_trades ts;
             min_count = min (length (buy_trades ts)) (length (sell_trades ts))
         in \<lparr>initial_capital = initial,
             final_capital = final,
             total_return = (final / initial - 1) * 100,
             trade_count = length ts div 2,
             win_rate = real (winning_trades a) / real (length ts) * 100,
             avg_holding_days =
               (if min_count > 0 then real_of_int (holding_days a) / real min_count else 0),
             total_profit = tally_profit a,
             total_loss = tally_loss a,
             profit_factor =
               (if tally_loss a \<noteq> 0 then Finite \<bar>tally_profit a / tally_loss a\<bar>
                else Infinity),
             ledger = ts\<rparr>)
      else
        \<lparr>initial_capital = initial, final_capital = final, total_return = 0,
         trade_count = 0, win_rate = 0, avg_holding_days = 0, total_profit = 0,
         total_loss = 0, profit_factor = Finite 0, ledger = []\<rparr>)"

text \<open>
  The body of the loop over \<open>signal_cols\<close> for one column: \<open>data\<close> is the frame's rows
  for that column. Line 88 divides by \<open>initial_capital\<close>; with a capital of zero no
  share is ever bought, both operands are Python numbers and the division raises.
\<close>

definition backtest_signal :: "bar list \<Rightarrow> real \<Rightarrow> real \<Rightarrow> error + summary" where
  "backtest_signal data initial position_size =
     (case run_bars position_size \<lparr>capital = initial, position = 0, trades = []\<rparr> (drop 1 data) of
        Inl e \<Rightarrow> Inl e
      | Inr s \<Rightarrow>
        (case forced_close data s of
           Inl e \<Rightarrow> Inl e
         | Inr s' \<Rightarrow>
           if initial = 0 then Inl ZeroDivisionError
           else Inr (summarize initial (capital s') (trades s'))))"

text \<open>Rows for examples.\<close>

definition mk_bar :: "int \<Rightarrow> real \<Rightarrow> real \<Rightarrow> bar" where
  "mk_bar d c s = \<lparr>bar_date = d, bar_close = c, bar_signal = s\<rparr>"

text \<open>
  Two readings of a ledger used by the properties below: the cash it moves (proceeds of
  the closing entries minus costs of the purchases), and the shares held after it, which
  is the variable \<open>position\<close> that \<open>plot_equity_curve\<close> maintains while it walks the
  ledger (the quantity of the row after a Buy, zero after any other row).
\<close>

definition net_flow :: "trade list \<Rightarrow> real" where
  "net_flow ts =
     sum_list (map t_cash_flow (sell_trades ts)) - sum_list (map t_cash_flow (buy_trades ts))"

definition ledger_position :: "trade list \<Rightarrow> int" where
  "ledger_position ts = foldl (\<lambda>p row. if t_kind row = Buy then t_shares row else 0) 0 ts"

section \<open>The equity curve (backtest.py, plot_equity_curve)\<close>

text \<open>
  Only the data of the capital curve is modelled (lines 171 to 173 and 204 to 239), not the
  drawing. The ledger is a pandas table there: a row without a cost entry reads as
  not-a-number in the cost column, so amounts are \<open>real option\<close> with \<open>None\<close> for
  not-a-number. The frame's index is taken to have no duplicate dates.
\<close>

record replay =
  r_capital :: "real option"
  r_position :: int
  r_equity :: "real option list"
  r_dates :: "int list"

definition close_at :: "bar list \<Rightarrow> int \<Rightarrow> real option" where
  "close_at df d = map_of (map (\<lambda>b. (bar_date b, bar_close b)) df) d"

definition replay_trade :: "bar list \<Rightarrow> replay \<Rightarrow> trade \<Rightarrow> replay" where
  "replay_trade df r row =
     (let capital' =
            (if t_kind row = Buy then map_option (\<lambda>c. c - t_cash_flow row) (r_capital r)
             else map_option (\<lambda>c. c + t_cash_flow row) (r_capital r));
          position' = (if t_kind row = Buy then t_shares row else 0);
          total_equity =
            (if position' > 0 then
               (case close_at df (t_date row) of
                  Some c \<Rightarrow> map_option (\<lambda>v. v + real_of_int position' * c) capital'
                | None \<Rightarrow> capital')
             else capital')
      in \<lparr>r_capital = capital', r_position = position',
          r_equity = r_equity r @ [total_equity], r_dates = r_dates r @ [t_date row]\<rparr>)"

definition trailing_point :: "bar list \<Rightarrow> replay \<Rightarrow> replay" where
  "trailing_point df r =
     (if last (r_dates r) \<noteq> bar_date (last df) then
        (let last_equity =
               (if r_position r > 0
                then map_option (\<lambda>v. v + real_of_int (r_position r) * bar_close (last df))
                       (r_capital r)
                else r_capital r)
         in r\<lparr>r_equity := r_equity r @ [last_equity],
               r_dates := r_dates r @ [bar_date (last df)]\<rparr>)
      else r)"

definition plot_equity_curve :: "bar list \<Rightarrow> trade list \<Rightarrow> error + (int \<times> real option) list option" where
  "plot_equity_curve df trades_df =
     (if trades_df = [] then Inr None
      else
        (case df of
           [] \<Rightarrow> Inl IndexError
         | b0 # _ \<Rightarrow>
           (let initial_capital =
                  (if list_ex (\<lambda>t. t_kind t = Buy) trades_df then
                     (if t_kind (hd trades_df) = Buy
                      then Some (t_remaining (hd trades_df) + t_cash_flow (hd trades_df))
                      else None)
                   else Some 1000000);
                r = foldl (replay_trade df)
                      \<lparr>r_capital = initial_capital, r_position = 0,
                       r_equity = [initial_capital], r_dates = [bar_date b0]\<rparr>
                      trades_df;
                r' = trailing_point df r
            in Inr (Some (zip (r_dates r') (r_equity r'))))))"

section \<open>Forward returns and signal accuracy (evaluation.py)\<close>

text \<open>
  pandas columns of floats hold not-a-number for a missing value, and a division by a
  zero price gives an infinity or not-a-number instead of raising. The values of the
  return column and of the scores are therefore reals extended by these three values.
  The sign of a zero is not represented.
\<close>

datatype pyfloat = Num real | PInf | NInf | NaN

fun is_nan :: "pyfloat \<Rightarrow> bool" where
  "is_nan NaN = True"
| "is_nan _ = False"

text \<open>The comparisons \<open>x > 0\<close> and \<open>x < 0\<close>; both are false on not-a-number.\<close>

fun gt0 :: "pyfloat \<Rightarrow> bool" where
  "gt0 (Num a) = (0 < a)"
| "gt0 PInf = True"
| "gt0 _ = False"

fun lt0 :: "pyfloat \<Rightarrow> bool" where
  "lt0 (Num a) = (a < 0)"
| "lt0 NInf = True"
| "lt0 _ = False"

definition fdiv :: "real \<Rightarrow> real \<Rightarrow> pyfloat" where
  "fdiv a b =
     (if b \<noteq> 0 then Num (a / b) else if 0 < a then PInf else if a < 0 then NInf else NaN)"

fun fadd :: "pyfloat \<Rightarrow> pyfloat \<Rightarrow> pyfloat" where
  "fadd (Num a) (Num b) = Num (a + b)"
| "fadd NaN _ = NaN"
| "fadd _ NaN = NaN"
| "fadd PInf NInf = NaN"
| "fadd NInf PInf = NaN"
| "fadd PInf _ = PInf"
| "fadd _ PInf = PInf"
| "fadd NInf _ = NInf"
| "fadd _ NInf = NInf"

fun fneg :: "pyfloat \<Rightarrow> pyfloat" where
  "fneg (Num a) = Num (- a)"
| "fneg PInf = NInf"
| "fneg NInf = PInf"
| "fneg NaN = NaN"

text \<open>Multiplication and division by a positive finite number.\<close>

fun fscale :: "pyfloat \<Rightarrow> real \<Rightarrow> pyfloat" where
  "fscale (Num a) k = Num (a * k)"
| "fscale x k = x"

fun fover :: "pyfloat \<Rightarrow> nat \<Rightarrow> pyfloat" where
  "fover (Num a) n = Num (a / real n)"
| "fover x n = x"

text \<open>
  \<open>Series.mean()\<close>: of a column of floats it skips not-a-number and is not-a-number when
  nothing is left; of a column of booleans it is the fraction of true entries, and
  not-a-number for an empty column.
\<close>

definition mean_skipna :: "pyfloat list \<Rightarrow> pyfloat" where
  "mean_skipna xs =
     (let valid = filter (\<lambda>x. \<not> is_nan x) xs
      in if valid = [] then NaN else fover (foldl fadd (Num 0) valid) (length valid))"

definition mean_bool :: "bool list \<Rightarrow> pyfloat" where
  "mean_bool bs =
     (if bs = [] then NaN else Num (real (length (filter id bs)) / real (length bs)))"

text \<open>
  \<open>data['Close'].pct_change(days_forward).shift(-days_forward)\<close>. \<open>pct_change(h)\<close>
  is the column divided by itself shifted down by \<open>h\<close> rows, minus one, with
  not-a-number in the first \<open>h\<close> rows; \<open>shift(-h)\<close> moves the rows up by \<open>h\<close> and fills the
  end with not-a-number. The close prices themselves hold no not-a-number, and
  \<open>days_forward\<close> is a number of days, not negative.
\<close>

definition pct_change :: "real list \<Rightarrow> nat \<Rightarrow> pyfloat list" where
  "pct_change xs h =
     map (\<lambda>j. if j < h then NaN else fadd (fdiv (xs ! j) (xs ! (j - h))) (Num (- 1)))
       [0..<length xs]"

definition shift_up :: "pyfloat list \<Rightarrow> nat \<Rightarrow> pyfloat list" where
  "shift_up ys h = drop h ys @ replicate (min h (length ys)) NaN"

definition forward_returns :: "real list \<Rightarrow> nat \<Rightarrow> pyfloat list" where
  "forward_returns closes h = shift_up (pct_change closes h) h"

text \<open>
  A data frame for the two scoring functions: the close prices and the other columns by
  name, every column as long as the index. Column labels are unique, and the columns
  read here hold numbers, no not-a-number.
\<close>

record frame =
  Close :: "real list"
  columns :: "(string \<times> real list) list"

definition column :: "frame \<Rightarrow> string \<Rightarrow> real list option" where
  "column df name = (if name = ''Close'' then Some (Close df) else map_of (columns df) name)"

text \<open>\<open>df[mask][column]\<close>: the entries of a column in the rows where the mask holds.\<close>

definition rows_where :: "bool list \<Rightarrow> 'a list \<Rightarrow> 'a list" where
  "rows_where msk xs = map snd (filter fst (zip msk xs))"

text \<open>\<open>'_Signal' in col or col.endswith('_Col')\<close>\<close>

definition is_signal_col :: "string \<Rightarrow> bool" where
  "is_signal_col col \<longleftrightarrow> sublist ''_Signal'' col \<or> suffix ''_Col'' col"

record accuracy =
  Signal :: string
  Buy_Signals :: nat
  Sell_Signals :: nat
  Total_Signals :: nat
  Buy_Accuracy :: pyfloat
  Sell_Accuracy :: pyfloat
  Total_Accuracy :: pyfloat
  Buy_Return :: pyfloat
  Sell_Return :: pyfloat

text \<open>
  The body of the loop over the signal columns, for the column \<open>signal_col\<close> with values
  \<open>col\<close>, given the return column \<open>ret\<close>; \<open>None\<close> is the \<open>continue\<close> of line 29.
\<close>

definition evaluate_signal :: "pyfloat list \<Rightarrow> string \<times> real list \<Rightarrow> accuracy option" where
  "evaluate_signal ret sc =
     (let signal_col = fst sc; col = snd sc;
          buy_signals = rows_where (map (\<lambda>v. 0 < v) col) ret;
          sell_signals = rows_where (map (\<lambda>v. v < 0) col) ret;
          buy_count = length buy_signals;
          sell_count = length sell_signals;
          total_signals = buy_count + sell_count
      in if total_signals = 0 then None
         else
           (let buy_valid = filter (\<lambda>x. \<not> is_nan x) buy_signals;
                sell_valid = filter (\<lambda>x. \<not> is_nan x) sell_signals;
                buy_accuracy = (if buy_count > 0 then mean_bool (map gt0 buy_valid) else NaN);
                buy_return =
                  (if buy_count > 0 then fscale (mean_skipna buy_signals) 100 else NaN);
                sell_accuracy = (if sell_count > 0 then mean_bool (map lt0 sell_valid) else NaN);
                sell_return =
                  (if sell_count > 0 then fscale (fneg (mean_skipna sell_signals)) 100
                   else NaN);
                total_accuracy =
                  (if buy_count > 0 \<and> sell_count > 0 then
                     (let correct = length (filter id (map gt0 buy_valid)) +
                                    length (filter id (map lt0 sell_valid));
                          denom = length buy_valid + length sell_valid
                      in if denom > 0 then Num (real correct / real denom) else NaN)
                   else if buy_count > 0 then buy_accuracy
                   else if sell_count > 0 then sell_accuracy
                   else NaN)
            in Some \<lparr>Signal = signal_col, Buy_Signals = buy_count, Sell_Signals = sell_count,
                     Total_Signals = total_signals, Buy_Accuracy = buy_accuracy,
                     Sell_Accuracy = sell_accuracy, Total_Accuracy = total_accuracy,
                     Buy_Return = buy_return, Sell_Return = sell_return\<rparr>))"

text \<open>
  The table is one row per entry of \<open>results\<close>, in order. With no entry at all,
  \<open>pd.DataFrame([])\<close> has no column and \<open>set_index('Signal')\<close> raises a KeyError.
\<close>

definition evaluate_individual_signals :: "frame \<Rightarrow> nat \<Rightarrow> error + accuracy list" where
  "evaluate_individual_signals df days_forward =
     (let ret = forward_returns (Close df) days_forward;
          signal_cols = filter (\<lambda>sc. is_signal_col (fst sc)) (columns df);
          results = List.map_filter (evaluate_signal ret) signal_cols
      in if results = [] then Inl KeyError else Inr results)"

section \<open>Signal combinations (evaluation.py, analyze_signal_combinations)\<close>

text \<open>\<open>itertools.combinations(xs, k)\<close>: the subsequences of length \<open>k\<close>, in order.\<close>

fun combinations :: "'a list \<Rightarrow> nat \<Rightarrow> 'a list list" where
  "combinations xs 0 = [[]]"
| "combinations [] (Suc k) = []"
| "combinations (x # xs) (Suc k) = map ((#) x) (combinations xs k) @ combinations xs (Suc k)"

text \<open>The combinations of both loops: \<open>for i in range(2, min(len(indicators) + 1, 4))\<close>.\<close>

definition all_combos :: "string list \<Rightarrow> string list list" where
  "all_combos indicators =
     concat (map (combinations indicators) [2..<min (length indicators + 1) 4])"

text \<open>\<open>" + ".join(combo)\<close>\<close>

fun join :: "string \<Rightarrow> string list \<Rightarrow> string" where
  "join sep [] = []"
| "join sep [x] = x"
| "join sep (x # y # ys) = x @ sep @ join sep (y # ys)"

text \<open>
  The mask of a combination: the first member's test, and-ed with the test of every
  further member. A name that is no column of the frame raises a KeyError; an empty
  combination has no first member.
\<close>

fun and_columns :: "(real \<Rightarrow> bool) \<Rightarrow> frame \<Rightarrow> bool list \<Rightarrow> string list \<Rightarrow> error + bool list" where
  "and_columns P df msk [] = Inr msk"
| "and_columns P df msk (ind # inds) =
     (case column df ind of
        None \<Rightarrow> Inl KeyError
      | Some v \<Rightarrow> and_columns P df (map (\<lambda>(a, b). a \<and> b) (zip msk (map P v))) inds)"

definition combo_mask :: "(real \<Rightarrow> bool) \<Rightarrow> frame \<Rightarrow> string list \<Rightarrow> error + bool list" where
  "combo_mask P df combo =
     (case combo of
        [] \<Rightarrow> Inl IndexError
      | first # others \<Rightarrow>
        (case column df first of
           None \<Rightarrow> Inl KeyError
         | Some v \<Rightarrow> and_columns P df (map P v) others))"

record combo_row =
  Indicators :: "string list"
  c_Buy_Signals :: nat
  c_Sell_Signals :: nat
  c_Buy_Accuracy :: pyfloat
  c_Sell_Accuracy :: pyfloat
  c_Buy_Return :: pyfloat
  c_Sell_Return :: pyfloat
  c_Total_Signals :: nat

text \<open>
  The body of the inner loop for one combination; \<open>None\<close> when the combination is not
  stored (line 127).
\<close>

definition analyze_combo :: "frame \<Rightarrow> pyfloat list \<Rightarrow> string list \<Rightarrow> error + combo_row option" where
  "analyze_combo df ret combo =
     (case combo_mask (\<lambda>v. 0 < v) df combo of
        Inl e \<Rightarrow> Inl e
      | Inr buy_mask \<Rightarrow>
        (case combo_mask (\<lambda>v. v < 0) df combo of
           Inl e \<Rightarrow> Inl e
         | Inr sell_mask \<Rightarrow>
           (let buy_signals = rows_where buy_mask ret;
                sell_signals = rows_where sell_mask ret;
                buy_count = length buy_signals;
                sell_count = length sell_signals;
                buy_accuracy =
                  (if buy_count > 0 then mean_bool (map gt0 buy_signals) else NaN);
                buy_return =
                  (if buy_count > 0 then fscale (mean_skipna buy_signals) 100 else NaN);
                sell_accuracy =
                  (if sell_count > 0 then mean_bool (map lt0 sell_signals) else NaN);
                sell_return =
                  (if sell_count > 0 then fscale (fneg (mean_skipna sell_signals)) 100
                   else NaN)
            in if buy_count > 0 \<or> sell_count > 0 then
                 Inr (Some \<lparr>Indicators = combo, c_Buy_Signals = buy_count,
                            c_Sell_Signals = sell_count, c_Buy_Accuracy = buy_accuracy,
                            c_Sell_Accuracy = sell_accuracy, c_Buy_Return = buy_return,
                            c_Sell_Return = sell_return,
                            c_Total_Signals = buy_count + sell_count\<rparr>)
               else Inr None)))"

text \<open>
  The dictionary \<open>results\<close>, in insertion order; storing under a name already present
  replaces the entry in place.
\<close>

fun analyze_combos ::
  "frame \<Rightarrow> pyfloat list \<Rightarrow> (string \<times> combo_row) list \<Rightarrow> string list list \<Rightarrow>
   error + (string \<times> combo_row) list" where
  "analyze_combos df ret results [] = Inr results"
| "analyze_combos df ret results (combo # rest) =
     (case analyze_combo df ret combo of
        Inl e \<Rightarrow> Inl e
      | Inr None \<Rightarrow> analyze_combos df ret results rest
      | Inr (Some row) \<Rightarrow>
          analyze_combos df ret (AList.update (join '' + '' combo) row results) rest)"

text \<open>
  The rows of the returned table, one per stored combination and before the final
  ranking by buy accuracy and buy return, which only reorders them. The frame passed in
  carries no return column of its own, so the column is computed as in line 88.
\<close>

definition analyze_signal_combinations ::
  "frame \<Rightarrow> string list \<Rightarrow> nat \<Rightarrow> error + (string \<times> combo_row) list" where
  "analyze_signal_combinations df indicators days_forward =
     analyze_combos df (forward_returns (Close df) days_forward) [] (all_combos indicators)"

text \<open>
  What the loop maintains, stated for the proofs: the shares held are those the ledger
  leaves open, the cash is the initial capital plus the ledger's net cash flow, the loop
  itself writes no forced close, a non-empty ledger starts with a purchase out of the
  initial capital, purchases and closing entries alternate, and shares are held exactly
  when the last entry is a purchase.
\<close>

definition ledger_inv :: "real \<Rightarrow> state \<Rightarrow> bool" where
  "ledger_inv c0 s \<longleftrightarrow>
     0 \<le> position s \<and> ledger_position (trades s) = position s \<and>
     capital s = c0 + net_flow (trades s) \<and>
     list_all (\<lambda>t. t_kind t \<noteq> ForcedClose) (trades s) \<and>
     (trades s = [] \<or>
      (t_kind (hd (trades s)) = Buy \<and>
       t_remaining (hd (trades s)) + t_cash_flow (hd (trades s)) = c0)) \<and>
     length (buy_trades (trades s)) =
       length (sell_trades (trades s)) + (if position s > 0 then 1 else 0) \<and>
     (0 < position s \<longleftrightarrow> trades s \<noteq> [] \<and> t_kind (last (trades s)) = Buy)"

section \<open>Properties of the backtest engine\<close>

subsection \<open>The ledger invariant\<close>


lemma net_flow_snoc:
  "net_flow (ts @ [t]) =
     net_flow ts + (if t_kind t = Buy then - t_cash_flow t else t_cash_flow t)"
  by (cases "t_kind t") (simp_all add: net_flow_def buy_trades_def sell_trades_def)

lemma net_flow_Nil: "net_flow [] = 0"
  by (simp add: net_flow_def buy_trades_def sell_trades_def)

lemma ledger_position_snoc:
  "ledger_position (ts @ [t]) = (if t_kind t = Buy then t_shares t else 0)"
  by (simp add: ledger_position_def)

lemma buy_sell_length:
  "length (buy_trades ts) + length (sell_trades ts) = length ts"
proof -
  have "sell_trades ts = filter (\<lambda>t. \<not> t_kind t = Buy) ts"
    unfolding sell_trades_def
    by (rule filter_cong) (auto intro: trade_kind.exhaust)
  then show ?thesis
    by (simp add: buy_trades_def sum_length_filter_compl)
qed

lemma ledger_inv_init: "ledger_inv c0 \<lparr>capital = c0, position = 0, trades = []\<rparr>"
  by (simp add: ledger_inv_def ledger_position_def net_flow_def buy_trades_def sell_trades_def)

lemma step_cases:
  assumes "step ps s b = Inr s'"
  shows "s' = s \<or>
     (position s = 0 \<and> bar_close b \<noteq> 0 \<and> 0 < bar_signal b \<and>
      0 < py_int (capital s * ps / bar_close b) \<and>
      s' = \<lparr>capital = capital s - real_of_int (py_int (capital s * ps / bar_close b)) * bar_close b,
            position = py_int (capital s * ps / bar_close b),
            trades = trades s @
              [\<lparr>t_date = bar_date b, t_kind = Buy, t_price = bar_close b,
                t_shares = py_int (capital s * ps / bar_close b),
                t_cash_flow = real_of_int (py_int (capital s * ps / bar_close b)) * bar_close b,
                t_remaining = capital s - real_of_int (py_int (capital s * ps / bar_close b)) * bar_close b\<rparr>]\<rparr>) \<or>
     (0 < position s \<and> bar_signal b < 0 \<and>
      s' = \<lparr>capital = capital s + real_of_int (position s) * bar_close b, position = 0,
            trades = trades s @
              [\<lparr>t_date = bar_date b, t_kind = Sell, t_price = bar_close b,
                t_shares = position s,
                t_cash_flow = real_of_int (position s) * bar_close b,
                t_remaining = capital s + real_of_int (position s) * bar_close b\<rparr>]\<rparr>)"
  using assms by (simp add: step_def Let_def split: if_splits)

lemma step_inv:
  assumes "step ps s b = Inr s'" and "ledger_inv c0 s"
  shows "ledger_inv c0 s'"
proof -
  consider (same) "s' = s"
    | (buy) x where "position s = 0" "0 < x"
        "s' = \<lparr>capital = capital s - real_of_int x * bar_close b, position = x,
            trades = trades s @
              [\<lparr>t_date = bar_date b, t_kind = Buy, t_price = bar_close b, t_shares = x,
                t_cash_flow = real_of_int x * bar_close b,
                t_remaining = capital s - real_of_int x * bar_close b\<rparr>]\<rparr>"
    | (sell) "0 < position s"
        "s' = \<lparr>capital = capital s + real_of_int (position s) * bar_close b, position = 0,
            trades = trades s @
              [\<lparr>t_date = bar_date b, t_kind = Sell, t_price = bar_close b,
                t_shares = position s,
                t_cash_flow = real_of_int (position s) * bar_close b,
                t_remaining = capital s + real_of_int (position s) * bar_close b\<rparr>]\<rparr>"
    using step_cases [OF assms(1)] by blast
  then show ?thesis
  proof cases
    case same
    with assms(2) show ?thesis by simp
  next
    case buy
    with assms(2) show ?thesis
      by (auto simp: ledger_inv_def net_flow_snoc net_flow_Nil ledger_position_snoc
          hd_append buy_trades_def sell_trades_def)
  next
    case sell
    with assms(2) show ?thesis
      by (auto simp: ledger_inv_def net_flow_snoc net_flow_Nil ledger_position_snoc
          hd_append buy_trades_def sell_trades_def)
  qed
qed

lemma run_bars_inv:
  "run_bars ps s bs = Inr s' \<Longrightarrow> ledger_inv c0 s \<Longrightarrow> ledger_inv c0 s'"
proof (induction bs arbitrary: s)
  case Nil
  then show ?case by simp
next
  case (Cons b bs)
  then show ?case
    by (auto split: sum.splits dest: step_inv)
qed

lemma summarize_ledger: "ledger (summarize i f ts) = ts"
  by (simp add: summarize_def Let_def)

lemma summarize_final: "final_capital (summarize i f ts) = f"
  by (simp add: summarize_def Let_def)

lemma forced_close_cases:
  assumes "forced_close data s = Inr s'"
  shows "(position s \<le> 0 \<and> s' = s) \<or>
     (0 < position s \<and> data \<noteq> [] \<and>
      s' = s\<lparr>capital := capital s + real_of_int (position s) * bar_close (last data),
             trades := trades s @
               [\<lparr>t_date = bar_date (last data), t_kind = ForcedClose,
                 t_price = bar_close (last data), t_shares = position s,
                 t_cash_flow = real_of_int (position s) * bar_close (last data),
                 t_remaining = capital s + real_of_int (position s) * bar_close (last data)\<rparr>]\<rparr>)"
  using assms by (auto simp: forced_close_def Let_def split: if_splits list.splits)

lemma backtest_signal_Inr:
  assumes "backtest_signal data c0 ps = Inr r"
  obtains s s' where
    "run_bars ps \<lparr>capital = c0, position = 0, trades = []\<rparr> (drop 1 data) = Inr s"
    "forced_close data s = Inr s'" "c0 \<noteq> 0"
    "r = summarize c0 (capital s') (trades s')" "ledger_inv c0 s"
proof -
  from assms obtain s s' where
    1: "run_bars ps \<lparr>capital = c0, position = 0, trades = []\<rparr> (drop 1 data) = Inr s"
    and 2: "forced_close data s = Inr s'" and 3: "c0 \<noteq> 0"
    and 4: "r = summarize c0 (capital s') (trades s')"
    by (auto simp: backtest_signal_def split: sum.splits if_splits)
  from run_bars_inv [OF 1 ledger_inv_init] have "ledger_inv c0 s" .
  with 1 2 3 4 that show thesis by blast
qed

lemma forced_close_flat:
  assumes "ledger_inv c0 s" and "forced_close data s = Inr s'"
  shows "ledger_position (trades s') = 0"
    and "capital s' = c0 + net_flow (trades s')"
    and "length (buy_trades (trades s')) = length (sell_trades (trades s'))"
    and "trades s' = [] \<or>
      (t_kind (hd (trades s')) = Buy \<and>
       t_remaining (hd (trades s')) + t_cash_flow (hd (trades s')) = c0 \<and>
       t_kind (last (trades s')) \<noteq> Buy)"
  using forced_close_cases [OF assms(2)] assms(1)
  by (auto simp: ledger_inv_def net_flow_snoc ledger_position_snoc hd_append
      buy_trades_def sell_trades_def)

subsection \<open>The worked scenario\<close>

text \<open>
  Claim C1. Prices 10, 12, 8, 15 with signals 0, 1, -1, 0, capital 1000 and position
  fraction 1: the ledger is a purchase of 83 shares at 12 (cost 996, cash 4) on the
  second bar and a sale of 83 shares at 8 (proceeds 664, cash 668) on the third bar,
  with no forced close; the final capital is 668 and the total return -33.2 percent.
\<close>

theorem scenario_buy_sell:
  "backtest_signal [mk_bar d1 10 0, mk_bar d2 12 1, mk_bar d3 8 (- 1), mk_bar d4 15 0] 1000 1
     = Inr \<lparr>initial_capital = 1000, final_capital = 668, total_return = - 33.2,
            trade_count = 1, win_rate = 0, avg_holding_days = real_of_int (d3 - d2),
            total_profit = 0, total_loss = - 332, profit_factor = Finite 0,
            ledger =
              [\<lparr>t_date = d2, t_kind = Buy, t_price = 12, t_shares = 83,
                t_cash_flow = 996, t_remaining = 4\<rparr>,
               \<lparr>t_date = d3, t_kind = Sell, t_price = 8, t_shares = 83,
                t_cash_flow = 664, t_remaining = 668\<rparr>]\<rparr>"
  by (simp add: backtest_signal_def mk_bar_def step_def forced_close_def summarize_def
      py_int_def Let_def tally_trades_def buy_trades_def sell_trades_def tally_pair_def
      trade_profit_def)

subsection \<open>The ledger ends flat\<close>

text \<open>
  The second scenario, prices 10, 12, 8 with signals 0, 1, 0 and capital 1000, at a
  position fraction of 1 and at the default fraction of a fifth.
\<close>

lemma open_end_run:
  "backtest_signal [mk_bar 1 10 0, mk_bar 2 12 1, mk_bar 3 8 0] 1000 1
     = Inr \<lparr>initial_capital = 1000, final_capital = 668, total_return = - 33.2,
            trade_count = 1, win_rate = 0, avg_holding_days = 1,
            total_profit = 0, total_loss = - 332, profit_factor = Finite 0,
            ledger =
              [\<lparr>t_date = 2, t_kind = Buy, t_price = 12, t_shares = 83,
                t_cash_flow = 996, t_remaining = 4\<rparr>,
               \<lparr>t_date = 3, t_kind = ForcedClose, t_price = 8, t_shares = 83,
                t_cash_flow = 664, t_remaining = 668\<rparr>]\<rparr>"
  by (simp add: backtest_signal_def mk_bar_def step_def forced_close_def summarize_def
      py_int_def Let_def tally_trades_def buy_trades_def sell_trades_def tally_pair_def
      trade_profit_def)

lemma open_end_run_default:
  "backtest_signal [mk_bar 1 10 0, mk_bar 2 12 1, mk_bar 3 8 0] 1000 0.2
     = Inr \<lparr>initial_capital = 1000, final_capital = 936, total_return = - 6.4,
            trade_count = 1, win_rate = 0, avg_holding_days = 1,
            total_profit = 0, total_loss = - 64, profit_factor = Finite 0,
            ledger =
              [\<lparr>t_date = 2, t_kind = Buy, t_price = 12, t_shares = 16,
                t_cash_flow = 192, t_remaining = 808\<rparr>,
               \<lparr>t_date = 3, t_kind = ForcedClose, t_price = 8, t_shares = 16,
                t_cash_flow = 128, t_remaining = 936\<rparr>]\<rparr>"
  by (simp add: backtest_signal_def mk_bar_def step_def forced_close_def summarize_def
      py_int_def Let_def tally_trades_def buy_trades_def sell_trades_def tally_pair_def
      trade_profit_def)

text \<open>
  Claim C2. Whenever the engine returns, its ledger is the ledger of the loop followed by
  one forced close at the last bar's close price if the loop ended holding shares, and by
  nothing otherwise; the loop itself writes no forced close, and the shares held after the
  whole ledger are zero.
\<close>

theorem ledger_ends_flat:
  assumes "backtest_signal data c0 ps = Inr r"
  shows "\<exists>s. run_bars ps \<lparr>capital = c0, position = 0, trades = []\<rparr> (drop 1 data) = Inr s \<and>
     position s = ledger_position (trades s) \<and>
     list_all (\<lambda>t. t_kind t \<noteq> ForcedClose) (trades s) \<and>
     ledger r = trades s @
       (if 0 < position s then
          [\<lparr>t_date = bar_date (last data), t_kind = ForcedClose,
            t_price = bar_close (last data), t_shares = position s,
            t_cash_flow = real_of_int (position s) * bar_close (last data),
            t_remaining = capital s + real_of_int (position s) * bar_close (last data)\<rparr>]
        else []) \<and>
     ledger_position (ledger r) = 0"
proof -
  from assms obtain s s' where
    run: "run_bars ps \<lparr>capital = c0, position = 0, trades = []\<rparr> (drop 1 data) = Inr s"
    and fc: "forced_close data s = Inr s'"
    and r: "r = summarize c0 (capital s') (trades s')" and inv: "ledger_inv c0 s"
    by (rule backtest_signal_Inr)
  have led: "ledger r = trades s'"
    by (simp add: r summarize_ledger)
  have flat: "ledger_position (ledger r) = 0"
    using forced_close_flat(1) [OF inv fc] by (simp add: led)
  have shape: "trades s' = trades s @
       (if 0 < position s then
          [\<lparr>t_date = bar_date (last data), t_kind = ForcedClose,
            t_price = bar_close (last data), t_shares = position s,
            t_cash_flow = real_of_int (position s) * bar_close (last data),
            t_remaining = capital s + real_of_int (position s) * bar_close (last data)\<rparr>]
        else [])"
    using forced_close_cases [OF fc] by auto
  from inv have "position s = ledger_position (trades s)"
    and "list_all (\<lambda>t. t_kind t \<noteq> ForcedClose) (trades s)"
    by (simp_all add: ledger_inv_def)
  with run led flat shape show ?thesis by auto
qed

theorem ledger_ends_flat_witness:
  "backtest_signal [mk_bar 1 10 0, mk_bar 2 12 1, mk_bar 3 8 0] 1000 1 =
     Inr \<lparr>initial_capital = 1000, final_capital = 668, total_return = - 33.2,
            trade_count = 1, win_rate = 0, avg_holding_days = 1,
            total_profit = 0, total_loss = - 332, profit_factor = Finite 0,
            ledger =
              [\<lparr>t_date = 2, t_kind = Buy, t_price = 12, t_shares = 83,
                t_cash_flow = 996, t_remaining = 4\<rparr>,
               \<lparr>t_date = 3, t_kind = ForcedClose, t_price = 8, t_shares = 83,
                t_cash_flow = 664, t_remaining = 668\<rparr>]\<rparr> \<and>
   ledger_position
     [\<lparr>t_date = 2, t_kind = Buy, t_price = 12, t_shares = 83,
       t_cash_flow = 996, t_remaining = 4\<rparr>,
      \<lparr>t_date = 3, t_kind = ForcedClose, t_price = 8, t_shares = 83,
       t_cash_flow = 664, t_remaining = 668\<rparr>] = 0"
proof -
  let ?r = "\<lparr>initial_capital = 1000, final_capital = 668, total_return = - 33.2,
            trade_count = 1, win_rate = 0, avg_holding_days = 1,
            total_profit = 0, total_loss = - 332, profit_factor = Finite 0,
            ledger =
              [\<lparr>t_date = 2, t_kind = Buy, t_price = 12, t_shares = 83,
                t_cash_flow = 996, t_remaining = 4\<rparr>,
               \<lparr>t_date = 3, t_kind = ForcedClose, t_price = 8, t_shares = 83,
                t_cash_flow = 664, t_remaining = 668\<rparr>]\<rparr>"
  have eq: "backtest_signal [mk_bar 1 10 0, mk_bar 2 12 1, mk_bar 3 8 0] 1000 1 = Inr ?r"
    by (rule open_end_run)
  from ledger_ends_flat [OF eq] have "ledger_position (ledger ?r) = 0"
    by (elim exE conjE)
  with eq show ?thesis
    by simp
qed

subsection \<open>Entries\<close>
















subsection \<open>Win rate\<close>





text \<open>
  Two runs with one round trip each: a winning one, and one that sells at the purchase
  price.
\<close>

lemma winning_run:
  "backtest_signal [mk_bar 1 10 0, mk_bar 2 10 1, mk_bar 3 12 (- 1)] 1000 1
     = Inr \<lparr>initial_capital = 1000, final_capital = 1200, total_return = 20,
            trade_count = 1, win_rate = 50, avg_holding_days = 1,
            total_profit = 200, total_loss = 0, profit_factor = Infinity,
            ledger =
              [\<lparr>t_date = 2, t_kind = Buy, t_price = 10, t_shares = 100,
                t_cash_flow = 1000, t_remaining = 0\<rparr>,
               \<lparr>t_date = 3, t_kind = Sell, t_price = 12, t_shares = 100,
                t_cash_flow = 1200, t_remaining = 1200\<rparr>]\<rparr>"
  by (simp add: backtest_signal_def mk_bar_def step_def forced_close_def summarize_def
      py_int_def Let_def tally_trades_def buy_trades_def sell_trades_def tally_pair_def
      trade_profit_def)

lemma break_even_run:
  "backtest_signal [mk_bar 1 10 0, mk_bar 2 10 1, mk_bar 3 10 (- 1)] 1000 1
     = Inr \<lparr>initial_capital = 1000, final_capital = 1000, total_return = 0,
            trade_count = 1, win_rate = 0, avg_holding_days = 1,
            total_profit = 0, total_loss = 0, profit_factor = Infinity,
            ledger =
              [\<lparr>t_date = 2, t_kind = Buy, t_price = 10, t_shares = 100,
                t_cash_flow = 1000, t_remaining = 0\<rparr>,
               \<lparr>t_date = 3, t_kind = Sell, t_price = 10, t_shares = 100,
                t_cash_flow = 1000, t_remaining = 1000\<rparr>]\<rparr>"
  by (simp add: backtest_signal_def mk_bar_def step_def forced_close_def summarize_def
      py_int_def Let_def tally_trades_def buy_trades_def sell_trades_def tally_pair_def
      trade_profit_def)



subsection \<open>Profit factor\<close>

lemma summarize_Nil:
  "summarize i f [] =
     \<lparr>initial_capital = i, final_capital = f, total_return = 0, trade_count = 0,
      win_rate = 0, avg_holding_days = 0, total_profit = 0, total_loss = 0,
      profit_factor = Finite 0, ledger = []\<rparr>"
  by (simp add: summarize_def)

lemma summarize_profit_factor:
  "ts \<noteq> [] \<Longrightarrow>
   profit_factor (summarize i f ts) =
     (if total_loss (summarize i f ts) \<noteq> 0
      then Finite \<bar>total_profit (summarize i f ts) / total_loss (summarize i f ts)\<bar>
      else Infinity)"
  by (simp add: summarize_def Let_def)

lemma summarize_trade_count: "trade_count (summarize i f ts) = length ts div 2"
  by (simp add: summarize_def Let_def)

lemma hd_buy_trades:
  "ts \<noteq> [] \<Longrightarrow> t_kind (hd ts) = Buy \<Longrightarrow> 0 < length (buy_trades ts)"
  by (cases ts) (simp_all add: buy_trades_def)

lemma backtest_ledger_even:
  assumes "backtest_signal data c0 ps = Inr r"
  shows "length (ledger r) = 2 * length (buy_trades (ledger r))"
    and "ledger r \<noteq> [] \<Longrightarrow> 2 \<le> length (ledger r)"
proof -
  from assms obtain s s' where
    "run_bars ps \<lparr>capital = c0, position = 0, trades = []\<rparr> (drop 1 data) = Inr s"
    and fc: "forced_close data s = Inr s'"
    and r: "r = summarize c0 (capital s') (trades s')" and inv: "ledger_inv c0 s"
    by (rule backtest_signal_Inr)
  have led: "ledger r = trades s'"
    by (simp add: r summarize_ledger)
  from forced_close_flat(3) [OF inv fc] buy_sell_length [of "trades s'"]
  show even: "length (ledger r) = 2 * length (buy_trades (ledger r))"
    by (simp add: led)
  show "2 \<le> length (ledger r)" if "ledger r \<noteq> []"
  proof -
    from that forced_close_flat(4) [OF inv fc] have "t_kind (hd (ledger r)) = Buy"
      by (simp add: led)
    with that have "0 < length (buy_trades (ledger r))"
      by (rule hd_buy_trades)
    with even show ?thesis by linarith
  qed
qed

text \<open>
  Claim C4, as the code has it. The reported profit factor is infinite exactly when the
  ledger is non-empty and the gross loss is zero, whatever the gross profit; it is zero
  exactly when the ledger is empty, or the gross loss is non-zero and the gross profit
  is zero. The round-trip count is zero exactly when the ledger is empty. In particular a
  zero gross loss with a positive gross profit gives an infinite profit factor.
\<close>

theorem profit_factor_cases:
  assumes "backtest_signal data c0 ps = Inr r"
  shows "(profit_factor r = Infinity \<longleftrightarrow> ledger r \<noteq> [] \<and> total_loss r = 0) \<and>
     (profit_factor r = Finite 0 \<longleftrightarrow>
        ledger r = [] \<or> (total_loss r \<noteq> 0 \<and> total_profit r = 0)) \<and>
     (trade_count r = 0 \<longleftrightarrow> ledger r = []) \<and>
     (total_loss r = 0 \<and> 0 < total_profit r \<longrightarrow> profit_factor r = Infinity)"
proof -
  from assms obtain s s' where
    "run_bars ps \<lparr>capital = c0, position = 0, trades = []\<rparr> (drop 1 data) = Inr s"
    and "forced_close data s = Inr s'"
    and r: "r = summarize c0 (capital s') (trades s')"
    by (rule backtest_signal_Inr)
  have led: "ledger r = trades s'"
    by (simp add: r summarize_ledger)
  have count: "trade_count r = 0 \<longleftrightarrow> ledger r = []"
  proof
    assume "trade_count r = 0"
    then have "length (ledger r) < 2"
      by (simp add: r summarize_trade_count summarize_ledger)
    with backtest_ledger_even(2) [OF assms] show "ledger r = []"
      by fastforce
  next
    assume "ledger r = []"
    then show "trade_count r = 0"
      by (simp add: r summarize_trade_count summarize_ledger)
  qed
  show ?thesis
  proof (cases "trades s' = []")
    case True
    with count show ?thesis
      by (simp add: r summarize_Nil)
  next
    case False
    with count led summarize_profit_factor [OF False, of c0 "capital s'"] show ?thesis
      by (simp add: r)
  qed
qed

text \<open>
  The two equivalences of the claim as stated fail: a single round trip sold at the
  purchase price has gross profit and gross loss zero and an infinite profit factor, and
  a single losing round trip has one completed trade and a profit factor of zero.
\<close>

theorem profit_factor_counterexample:
  "backtest_signal [mk_bar 1 10 0, mk_bar 2 10 1, mk_bar 3 10 (- 1)] 1000 1
     = Inr \<lparr>initial_capital = 1000, final_capital = 1000, total_return = 0,
            trade_count = 1, win_rate = 0, avg_holding_days = 1,
            total_profit = 0, total_loss = 0, profit_factor = Infinity,
            ledger =
              [\<lparr>t_date = 2, t_kind = Buy, t_price = 10, t_shares = 100,
                t_cash_flow = 1000, t_remaining = 0\<rparr>,
               \<lparr>t_date = 3, t_kind = Sell, t_price = 10, t_shares = 100,
                t_cash_flow = 1000, t_remaining = 1000\<rparr>]\<rparr> \<and>
   backtest_signal [mk_bar 1 10 0, mk_bar 2 12 1, mk_bar 3 8 (- 1), mk_bar 4 15 0] 1000 1
     = Inr \<lparr>initial_capital = 1000, final_capital = 668, total_return = - 33.2,
            trade_count = 1, win_rate = 0, avg_holding_days = 1,
            total_profit = 0, total_loss = - 332, profit_factor = Finite 0,
            ledger =
              [\<lparr>t_date = 2, t_kind = Buy, t_price = 12, t_shares = 83,
                t_cash_flow = 996, t_remaining = 4\<rparr>,
               \<lparr>t_date = 3, t_kind = Sell, t_price = 8, t_shares = 83,
                t_cash_flow = 664, t_remaining = 668\<rparr>]\<rparr>"
  by (simp add: backtest_signal_def mk_bar_def step_def forced_close_def summarize_def
      py_int_def Let_def tally_trades_def buy_trades_def sell_trades_def tally_pair_def
      trade_profit_def)

theorem profit_factor_cases_witness:
  "backtest_signal [mk_bar 1 10 0, mk_bar 2 10 1, mk_bar 3 12 (- 1)] 1000 1
     = Inr \<lparr>initial_capital = 1000, final_capital = 1200, total_return = 20,
            trade_count = 1, win_rate = 50, avg_holding_days = 1,
            total_profit = 200, total_loss = 0, profit_factor = Infinity,
            ledger =
              [\<lparr>t_date = 2, t_kind = Buy, t_price = 10, t_shares = 100,
                t_cash_flow = 1000, t_remaining = 0\<rparr>,
               \<lparr>t_date = 3, t_kind = Sell, t_price = 12, t_shares = 100,
                t_cash_flow = 1200, t_remaining = 1200\<rparr>]\<rparr> \<and>
   profit_factor (projr (backtest_signal [mk_bar 1 10 0, mk_bar 2 10 1, mk_bar 3 12 (- 1)] 1000 1))
     = Infinity"
proof -
  let ?r = "projr (backtest_signal [mk_bar 1 10 0, mk_bar 2 10 1, mk_bar 3 12 (- 1)] 1000 1)"
  have eq: "backtest_signal [mk_bar 1 10 0, mk_bar 2 10 1, mk_bar 3 12 (- 1)] 1000 1 = Inr ?r"
    by (simp add: winning_run)
  have "total_loss ?r = 0" and "0 < total_profit ?r"
    by (simp_all add: winning_run)
  with profit_factor_cases [OF eq] have "profit_factor ?r = Infinity"
    by (elim conjE) (erule mp, rule conjI)
  then show ?thesis
    by (simp add: winning_run)
qed

subsection \<open>Capital accounting and the equity curve\<close>

lemma replay_capital:
  "r_capital (foldl (replay_trade df) r0 ts) = map_option (\<lambda>c. c + net_flow ts) (r_capital r0)"
proof (induction ts rule: rev_induct)
  case Nil
  then show ?case
    by (simp add: net_flow_Nil option.map_ident)
next
  case (snoc t ts)
  then show ?case
    by (simp add: replay_trade_def Let_def net_flow_snoc option.map_comp o_def algebra_simps)
qed

lemma replay_lengths:
  "length (r_equity (foldl (replay_trade df) r0 ts)) = length (r_equity r0) + length ts"
  "length (r_dates (foldl (replay_trade df) r0 ts)) = length (r_dates r0) + length ts"
  by (induction ts rule: rev_induct) (simp_all add: replay_trade_def Let_def)

lemma replay_closed:
  assumes "ts \<noteq> []" and "t_kind (last ts) \<noteq> Buy"
  shows "r_position (foldl (replay_trade df) r0 ts) = 0"
    and "last (r_equity (foldl (replay_trade df) r0 ts)) =
           r_capital (foldl (replay_trade df) r0 ts)"
proof -
  from assms(1) obtain us t where ts: "ts = us @ [t]"
    by (cases ts rule: rev_cases) auto
  with assms(2) have "t_kind t \<noteq> Buy" by simp
  then show "r_position (foldl (replay_trade df) r0 ts) = 0"
    and "last (r_equity (foldl (replay_trade df) r0 ts)) =
           r_capital (foldl (replay_trade df) r0 ts)"
    by (simp_all add: ts replay_trade_def Let_def)
qed

lemma trailing_point_closed:
  assumes "r_position r = 0" and "last (r_equity r) = r_capital r"
    and "length (r_equity r) = length (r_dates r)" and "r_equity r \<noteq> []"
  shows "last (r_equity (trailing_point df r)) = r_capital r"
    and "length (r_equity (trailing_point df r)) = length (r_dates (trailing_point df r))"
    and "r_equity (trailing_point df r) \<noteq> []"
  using assms by (simp_all add: trailing_point_def Let_def)

lemma plot_closed_ledger:
  assumes "ts \<noteq> []" and "df \<noteq> []" and "t_kind (hd ts) = Buy"
    and "t_kind (last ts) \<noteq> Buy"
  shows "\<exists>curve. plot_equity_curve df ts = Inr (Some curve) \<and> curve \<noteq> [] \<and>
     snd (last curve) = Some (t_remaining (hd ts) + t_cash_flow (hd ts) + net_flow ts)"
proof -
  from assms(2) obtain b0 bs where df: "df = b0 # bs"
    by (cases df) auto
  define c where "c = t_remaining (hd ts) + t_cash_flow (hd ts)"
  define r0 where "r0 = \<lparr>r_capital = Some c, r_position = 0, r_equity = [Some c],
    r_dates = [bar_date b0]\<rparr>"
  define R where "R = foldl (replay_trade df) r0 ts"
  define R' where "R' = trailing_point df R"
  have ex: "list_ex (\<lambda>t. t_kind t = Buy) ts"
    using assms(1,3) by (cases ts) simp_all
  have plot: "plot_equity_curve df ts = Inr (Some (zip (r_dates R') (r_equity R')))"
    using assms(1,3) ex
    by (simp add: plot_equity_curve_def df Let_def R'_def R_def r0_def c_def)
  have cap: "r_capital R = Some (c + net_flow ts)"
    by (simp add: R_def replay_capital r0_def)
  have pos: "r_position R = 0" and lst: "last (r_equity R) = r_capital R"
    unfolding R_def by (rule replay_closed [OF assms(1,4)])+
  have len: "length (r_equity R) = length (r_dates R)"
    by (simp add: R_def replay_lengths r0_def)
  have ne: "r_equity R \<noteq> []"
    using replay_lengths(1) [of df r0 ts] by (auto simp: R_def r0_def)
  note tp = trailing_point_closed [OF pos lst len ne, of df, folded R'_def]
  from tp(2,3) have ne': "r_dates R' \<noteq> []"
    by auto
  have "last (zip (r_dates R') (r_equity R')) = (last (r_dates R'), last (r_equity R'))"
    using tp(2,3) ne' by (simp add: last_zip)
  with tp(1) cap have "snd (last (zip (r_dates R') (r_equity R'))) = Some (c + net_flow ts)"
    by simp
  moreover have "zip (r_dates R') (r_equity R') \<noteq> []"
    using tp(3) ne' by (cases "r_dates R'"; cases "r_equity R'") simp_all
  ultimately show ?thesis
    using plot by (simp add: c_def)
qed

lemma summarize_initial: "initial_capital (summarize i f ts) = i"
  by (simp add: summarize_def Let_def)

lemma backtest_empty_frame:
  "backtest_signal [] c0 ps = Inr r \<Longrightarrow> ledger r = []"
  by (auto simp: backtest_signal_def forced_close_def summarize_def split: if_splits)

text \<open>
  Claim C3, as the code has it. For every backtest the reported final capital is the
  initial capital plus the proceeds of all sales and forced closes minus the costs of all
  purchases. When the ledger is not empty, the equity curve rebuilt from it exists and
  its last point is that final capital; when the ledger is empty, the reconstruction
  returns at its first check and there is no curve.
\<close>

theorem capital_accounting:
  assumes "backtest_signal data c0 ps = Inr r"
  shows "initial_capital r = c0 \<and>
     final_capital r =
       initial_capital r + sum_list (map t_cash_flow (sell_trades (ledger r)))
         - sum_list (map t_cash_flow (buy_trades (ledger r))) \<and>
     (if ledger r = [] then plot_equity_curve data (ledger r) = Inr None
      else \<exists>curve. plot_equity_curve data (ledger r) = Inr (Some curve) \<and> curve \<noteq> [] \<and>
             snd (last curve) = Some (final_capital r))"
proof -
  from assms obtain s s' where
    "run_bars ps \<lparr>capital = c0, position = 0, trades = []\<rparr> (drop 1 data) = Inr s"
    and fc: "forced_close data s = Inr s'"
    and r: "r = summarize c0 (capital s') (trades s')" and inv: "ledger_inv c0 s"
    by (rule backtest_signal_Inr)
  have led: "ledger r = trades s'" and fin: "final_capital r = capital s'"
    and ini: "initial_capital r = c0"
    by (simp_all add: r summarize_ledger summarize_final summarize_initial)
  note flat = forced_close_flat [OF inv fc]
  have acc: "final_capital r = c0 + net_flow (ledger r)"
    using flat(2) by (simp add: led fin)
  have curve: "\<exists>curve. plot_equity_curve data (ledger r) = Inr (Some curve) \<and> curve \<noteq> [] \<and>
             snd (last curve) = Some (final_capital r)" if ne: "ledger r \<noteq> []"
  proof -
    from ne assms have data: "data \<noteq> []"
      using backtest_empty_frame by blast
    from ne flat(4) have hd: "t_kind (hd (ledger r)) = Buy"
      and c0: "t_remaining (hd (ledger r)) + t_cash_flow (hd (ledger r)) = c0"
      and lst: "t_kind (last (ledger r)) \<noteq> Buy"
      by (simp_all add: led)
    from plot_closed_ledger [OF ne data hd lst] show ?thesis
      by (simp add: c0 acc)
  qed
  have "plot_equity_curve data [] = Inr None"
    by (simp add: plot_equity_curve_def)
  with curve ini acc show ?thesis
    by (auto simp: net_flow_def)
qed

text \<open>
  A backtest without a trade has no equity curve, and so no last point to compare.
\<close>

theorem capital_accounting_counterexample:
  "backtest_signal [mk_bar 1 10 0, mk_bar 2 12 0] 1000 1
     = Inr \<lparr>initial_capital = 1000, final_capital = 1000, total_return = 0,
            trade_count = 0, win_rate = 0, avg_holding_days = 0,
            total_profit = 0, total_loss = 0, profit_factor = Finite 0, ledger = []\<rparr> \<and>
   plot_equity_curve [mk_bar 1 10 0, mk_bar 2 12 0] [] = Inr None"
  by (simp add: backtest_signal_def mk_bar_def step_def forced_close_def summarize_def
      plot_equity_curve_def)

theorem capital_accounting_witness:
  "backtest_signal [mk_bar 1 10 0, mk_bar 2 10 1, mk_bar 3 12 (- 1)] 1000 1
     = Inr \<lparr>initial_capital = 1000, final_capital = 1200, total_return = 20,
            trade_count = 1, win_rate = 50, avg_holding_days = 1,
            total_profit = 200, total_loss = 0, profit_factor = Infinity,
            ledger =
              [\<lparr>t_date = 2, t_kind = Buy, t_price = 10, t_shares = 100,
                t_cash_flow = 1000, t_remaining = 0\<rparr>,
               \<lparr>t_date = 3, t_kind = Sell, t_price = 12, t_shares = 100,
                t_cash_flow = 1200, t_remaining = 1200\<rparr>]\<rparr> \<and>
   plot_equity_curve [mk_bar 1 10 0, mk_bar 2 10 1, mk_bar 3 12 (- 1)]
       [\<lparr>t_date = 2, t_kind = Buy, t_price = 10, t_shares = 100,
         t_cash_flow = 1000, t_remaining = 0\<rparr>,
        \<lparr>t_date = 3, t_kind = Sell, t_price = 12, t_shares = 100,
         t_cash_flow = 1200, t_remaining = 1200\<rparr>]
     = Inr (Some [(1, Some 1000), (2, Some 1000), (3, Some 1200)]) \<and>
   (1200 :: real) = 1000 + sum_list (map t_cash_flow (sell_trades
       [\<lparr>t_date = 2, t_kind = Buy, t_price = 10, t_shares = 100,
         t_cash_flow = 1000, t_remaining = 0\<rparr>,
        \<lparr>t_date = 3, t_kind = Sell, t_price = 12, t_shares = 100,
         t_cash_flow = 1200, t_remaining = 1200\<rparr>]))
     - sum_list (map t_cash_flow (buy_trades
       [\<lparr>t_date = 2, t_kind = Buy, t_price = 10, t_shares = 100,
         t_cash_flow = 1000, t_remaining = 0\<rparr>,
        \<lparr>t_date = 3, t_kind = Sell, t_price = 12, t_shares = 100,
         t_cash_flow = 1200, t_remaining = 1200\<rparr>]))"
proof -
  have plot: "plot_equity_curve [mk_bar 1 10 0, mk_bar 2 10 1, mk_bar 3 12 (- 1)]
       [\<lparr>t_date = 2, t_kind = Buy, t_price = 10, t_shares = 100,
         t_cash_flow = 1000, t_remaining = 0\<rparr>,
        \<lparr>t_date = 3, t_kind = Sell, t_price = 12, t_shares = 100,
         t_cash_flow = 1200, t_remaining = 1200\<rparr>]
     = Inr (Some [(1, Some 1000), (2, Some 1000), (3, Some 1200)])"
    by (simp add: plot_equity_curve_def mk_bar_def replay_trade_def trailing_point_def
        close_at_def Let_def)
  from capital_accounting [OF winning_run] plot winning_run show ?thesis
    by simp
qed

section \<open>Properties of the signal evaluator\<close>

subsection \<open>Forward returns and accuracy denominators\<close>

lemma length_forward_returns: "length (forward_returns cs h) = length cs"
  by (simp add: forward_returns_def shift_up_def pct_change_def)

lemma forward_returns_nth:
  assumes "d < length cs"
  shows "forward_returns cs h ! d =
     (if d + h < length cs then fadd (fdiv (cs ! (d + h)) (cs ! d)) (Num (- 1)) else NaN)"
proof (cases "d + h < length cs")
  case True
  then have "d < length cs - h" by linarith
  with True show ?thesis
    by (simp add: forward_returns_def shift_up_def pct_change_def nth_append add.commute)
next
  case False
  with assms have 1: "\<not> d < length cs - h"
    and 2: "d - (length cs - h) < min h (length cs)"
    by linarith+
  from False 1 nth_replicate [OF 2, of NaN] show ?thesis
    by (simp add: forward_returns_def shift_up_def pct_change_def nth_append)
qed

lemma fdiv_minus_one:
  "b \<noteq> 0 \<Longrightarrow> fadd (fdiv a b) (Num (- 1)) = Num ((a - b) / b)"
  by (simp add: fdiv_def field_simps)

lemma zip_as_map:
  "length xs = length ys \<Longrightarrow> zip xs ys = map (\<lambda>d. (xs ! d, ys ! d)) [0..<length ys]"
  by (rule nth_equalityI) simp_all

lemma rows_where_index:
  assumes "length msk = length xs"
  shows "rows_where msk xs = map ((!) xs) (filter (\<lambda>d. msk ! d) [0..<length xs])"
  by (simp add: rows_where_def zip_as_map [OF assms] filter_map o_def)

lemma mean_bool_index:
  "mean_bool (map P (map ((!) xs) ds)) =
     (if ds = [] then NaN
      else Num (real (length (filter (\<lambda>d. P (xs ! d)) ds)) / real (length ds)))"
  by (simp add: mean_bool_def filter_map o_def)

lemma valid_rows_index:
  assumes "length col = length ret"
  shows "filter (\<lambda>x. \<not> is_nan x) (rows_where (map P col) ret) =
     map ((!) ret) (filter (\<lambda>d. P (col ! d) \<and> \<not> is_nan (ret ! d)) [0..<length ret])"
proof -
  have "filter (\<lambda>d. map P col ! d) [0..<length ret] = filter (\<lambda>d. P (col ! d)) [0..<length ret]"
    using assms by (intro filter_cong) simp_all
  then show ?thesis
    using assms by (simp add: rows_where_index filter_map o_def conj_commute)
qed

lemma evaluate_signal_accuracy:
  assumes "evaluate_signal ret (name, col) = Some row"
  shows "Signal row = name"
    and "Buy_Accuracy row =
       mean_bool (map gt0 (filter (\<lambda>x. \<not> is_nan x) (rows_where (map (\<lambda>v. 0 < v) col) ret)))"
    and "Sell_Accuracy row =
       mean_bool (map lt0 (filter (\<lambda>x. \<not> is_nan x) (rows_where (map (\<lambda>v. v < 0) col) ret)))"
  using assms
  by (auto simp: evaluate_signal_def Let_def mean_bool_def split: if_splits)

lemma evaluate_rows:
  assumes "evaluate_individual_signals df h = Inr results" and "row \<in> set results"
  obtains name col where "(name, col) \<in> set (columns df)"
    and "evaluate_signal (forward_returns (Close df) h) (name, col) = Some row"
proof -
  from assms(1) have "results =
      List.map_filter (evaluate_signal (forward_returns (Close df) h))
        (filter (\<lambda>sc. is_signal_col (fst sc)) (columns df))"
    by (simp add: evaluate_individual_signals_def Let_def split: if_splits)
  with assms(2) obtain sc where "sc \<in> set (columns df)"
    and "evaluate_signal (forward_returns (Close df) h) sc = Some row"
    by (auto simp: List.map_filter_def)
  with that [of "fst sc" "snd sc"] show thesis
    by simp
qed

text \<open>
  An example frame: three closes, one signal column that triggers a purchase on the
  first and on the last date, evaluated one day ahead.
\<close>

lemma returns_example:
  "forward_returns [10, 11, 12] 1 = [Num (1 / 10), Num (1 / 11), NaN]"
  by (simp add: forward_returns_def pct_change_def shift_up_def fdiv_def upt_rec)

lemma signal_names: "is_signal_col ''A_Signal''" "is_signal_col ''B_Signal''"
  by (simp_all add: is_signal_col_def sublist_code)

lemma evaluator_example:
  "evaluate_individual_signals \<lparr>Close = [10, 11, 12], columns = [(''A_Signal'', [1, 0, 1])]\<rparr> 1 =
     Inr [\<lparr>Signal = ''A_Signal'', Buy_Signals = 2, Sell_Signals = 0, Total_Signals = 2,
           Buy_Accuracy = Num 1, Sell_Accuracy = NaN, Total_Accuracy = Num 1,
           Buy_Return = Num 10, Sell_Return = NaN\<rparr>]"
  unfolding evaluate_individual_signals_def frame.select_convs returns_example
  by (simp add: signal_names List.map_filter_def evaluate_signal_def rows_where_def
      mean_bool_def mean_skipna_def Let_def)

text \<open>
  Claim C6. The return column is as long as the price column; at a date with a later bar
  \<open>h\<close> rows ahead and a non-zero close it is the relative change of the close over those
  \<open>h\<close> rows, and at each of the last \<open>h\<close> dates it is not-a-number. Every row the
  evaluator reports belongs to a column of the frame, and its buy accuracy is the number
  of buy-triggered dates with a defined and positive return over the number of
  buy-triggered dates with a defined return (not-a-number when there is none), and
  likewise its sell accuracy with negative returns: a triggered date with an undefined
  return is in neither count.
\<close>

theorem forward_return_accuracy:
  assumes "evaluate_individual_signals df h = Inr results" and "row \<in> set results"
  shows "length (forward_returns (Close df) h) = length (Close df) \<and>
     (\<forall>d < length (Close df).
        (d + h < length (Close df) \<and> Close df ! d \<noteq> 0 \<longrightarrow>
           forward_returns (Close df) h ! d =
             Num ((Close df ! (d + h) - Close df ! d) / Close df ! d)) \<and>
        (length (Close df) \<le> d + h \<longrightarrow> forward_returns (Close df) h ! d = NaN)) \<and>
     (\<exists>col. (Signal row, col) \<in> set (columns df) \<and>
        (length col = length (Close df) \<longrightarrow>
           Buy_Accuracy row =
             (let valid = filter (\<lambda>d. 0 < col ! d \<and> \<not> is_nan (forward_returns (Close df) h ! d))
                            [0..<length (Close df)]
              in if valid = [] then NaN
                 else Num (real (length (filter (\<lambda>d. gt0 (forward_returns (Close df) h ! d)) valid))
                           / real (length valid))) \<and>
           Sell_Accuracy row =
             (let valid = filter (\<lambda>d. col ! d < 0 \<and> \<not> is_nan (forward_returns (Close df) h ! d))
                            [0..<length (Close df)]
              in if valid = [] then NaN
                 else Num (real (length (filter (\<lambda>d. lt0 (forward_returns (Close df) h ! d)) valid))
                           / real (length valid)))))"
proof (intro conjI allI impI)
  show "length (forward_returns (Close df) h) = length (Close df)"
    by (rule length_forward_returns)
next
  fix d
  assume "d < length (Close df)" and "d + h < length (Close df) \<and> Close df ! d \<noteq> 0"
  then show "forward_returns (Close df) h ! d =
      Num ((Close df ! (d + h) - Close df ! d) / Close df ! d)"
    by (simp add: forward_returns_nth fdiv_minus_one)
next
  fix d
  assume "d < length (Close df)" and "length (Close df) \<le> d + h"
  then show "forward_returns (Close df) h ! d = NaN"
    by (simp add: forward_returns_nth)
next
  let ?ret = "forward_returns (Close df) h"
  from assms obtain name col where mem: "(name, col) \<in> set (columns df)"
    and ev: "evaluate_signal ?ret (name, col) = Some row"
    by (rule evaluate_rows)
  note acc = evaluate_signal_accuracy [OF ev]
  have "Buy_Accuracy row =
             (let valid = filter (\<lambda>d. 0 < col ! d \<and> \<not> is_nan (?ret ! d)) [0..<length (Close df)]
              in if valid = [] then NaN
                 else Num (real (length (filter (\<lambda>d. gt0 (?ret ! d)) valid)) / real (length valid)))"
    and "Sell_Accuracy row =
             (let valid = filter (\<lambda>d. col ! d < 0 \<and> \<not> is_nan (?ret ! d)) [0..<length (Close df)]
              in if valid = [] then NaN
                 else Num (real (length (filter (\<lambda>d. lt0 (?ret ! d)) valid)) / real (length valid)))"
    if len: "length col = length (Close df)"
  proof -
    from len have len': "length col = length ?ret"
      by (simp add: length_forward_returns)
    show "Buy_Accuracy row =
             (let valid = filter (\<lambda>d. 0 < col ! d \<and> \<not> is_nan (?ret ! d)) [0..<length (Close df)]
              in if valid = [] then NaN
                 else Num (real (length (filter (\<lambda>d. gt0 (?ret ! d)) valid)) / real (length valid)))"
      unfolding acc(2) valid_rows_index [OF len'] mean_bool_index
      by (simp add: Let_def length_forward_returns)
    show "Sell_Accuracy row =
             (let valid = filter (\<lambda>d. col ! d < 0 \<and> \<not> is_nan (?ret ! d)) [0..<length (Close df)]
              in if valid = [] then NaN
                 else Num (real (length (filter (\<lambda>d. lt0 (?ret ! d)) valid)) / real (length valid)))"
      unfolding acc(3) valid_rows_index [OF len'] mean_bool_index
      by (simp add: Let_def length_forward_returns)
  qed
  with mem acc(1) show "\<exists>col. (Signal row, col) \<in> set (columns df) \<and>
        (length col = length (Close df) \<longrightarrow>
           Buy_Accuracy row =
             (let valid = filter (\<lambda>d. 0 < col ! d \<and> \<not> is_nan (forward_returns (Close df) h ! d))
                            [0..<length (Close df)]
              in if valid = [] then NaN
                 else Num (real (length (filter (\<lambda>d. gt0 (forward_returns (Close df) h ! d)) valid))
                           / real (length valid))) \<and>
           Sell_Accuracy row =
             (let valid = filter (\<lambda>d. col ! d < 0 \<and> \<not> is_nan (forward_returns (Close df) h ! d))
                            [0..<length (Close df)]
              in if valid = [] then NaN
                 else Num (real (length (filter (\<lambda>d. lt0 (forward_returns (Close df) h ! d)) valid))
                           / real (length valid))))"
    by blast
qed

theorem forward_return_accuracy_witness:
  "evaluate_individual_signals \<lparr>Close = [10, 11, 12], columns = [(''A_Signal'', [1, 0, 1])]\<rparr> 1 =
     Inr [\<lparr>Signal = ''A_Signal'', Buy_Signals = 2, Sell_Signals = 0, Total_Signals = 2,
           Buy_Accuracy = Num 1, Sell_Accuracy = NaN, Total_Accuracy = Num 1,
           Buy_Return = Num 10, Sell_Return = NaN\<rparr>] \<and>
   forward_returns [10, 11, 12] 1 ! 0 = Num ((11 - 10) / 10) \<and>
   forward_returns [10, 11, 12] 1 ! 2 = NaN"
proof -
  let ?df = "\<lparr>Close = [10, 11, 12], columns = [(''A_Signal'', [1, 0, 1])]\<rparr>"
  let ?row = "\<lparr>Signal = ''A_Signal'', Buy_Signals = 2, Sell_Signals = 0, Total_Signals = 2,
           Buy_Accuracy = Num 1, Sell_Accuracy = NaN, Total_Accuracy = Num 1,
           Buy_Return = Num 10, Sell_Return = NaN\<rparr>"
  have eq: "evaluate_individual_signals ?df 1 = Inr [?row]"
    by (rule evaluator_example)
  have mem: "?row \<in> set [?row]"
    by simp
  note facts = forward_return_accuracy [OF eq mem, THEN conjunct2, THEN conjunct1, THEN spec]
  from facts [of 0] have "forward_returns [10, 11, 12] 1 ! 0 = Num ((11 - 10) / 10)"
    by simp
  moreover from facts [of 2] have "forward_returns [10, 11, 12] 1 ! 2 = NaN"
    by simp
  ultimately show ?thesis
    using eq by blast
qed

subsection \<open>Zero-length input\<close>

lemma returns_empty: "forward_returns [] h = []"
  by (simp add: forward_returns_def pct_change_def shift_up_def)

lemma evaluate_signal_empty: "evaluate_signal [] sc = None"
  by (simp add: evaluate_signal_def rows_where_def)

lemma evaluator_empty_frame:
  "Close df = [] \<Longrightarrow> evaluate_individual_signals df h = Inl KeyError"
  by (simp add: evaluate_individual_signals_def returns_empty List.map_filter_def
      evaluate_signal_empty)

lemma backtest_empty_input:
  "c0 \<noteq> 0 \<Longrightarrow>
   backtest_signal [] c0 ps =
     Inr \<lparr>initial_capital = c0, final_capital = c0, total_return = 0, trade_count = 0,
          win_rate = 0, avg_holding_days = 0, total_profit = 0, total_loss = 0,
          profit_factor = Finite 0, ledger = []\<rparr>"
  by (simp add: backtest_signal_def forced_close_def summarize_def)

text \<open>
  Claim C9. On a frame without rows the backtest of a column returns a summary with an
  empty ledger, every statistic zero and the final capital equal to the initial capital
  (here with the default capital and position size), while the
  evaluator collects no result and raises a KeyError when it indexes the empty table by
  \<open>Signal\<close>, where the claim expects an empty table.
\<close>

theorem empty_input_results:
  "backtest_signal [] 1000000 0.2 =
     Inr \<lparr>initial_capital = 1000000, final_capital = 1000000, total_return = 0,
          trade_count = 0, win_rate = 0, avg_holding_days = 0, total_profit = 0,
          total_loss = 0, profit_factor = Finite 0, ledger = []\<rparr> \<and>
   evaluate_individual_signals \<lparr>Close = [], columns = [(''RSI_14_Signal'', [])]\<rparr> 5 =
     Inl KeyError"
  by (simp add: backtest_empty_input evaluator_empty_frame)

section \<open>Properties of the combination analyzer\<close>

subsection \<open>Scoring against the evaluator\<close>

lemma returns_two: "forward_returns [10, 11] 1 = [Num (1 / 10), NaN]"
  by (simp add: forward_returns_def pct_change_def shift_up_def fdiv_def upt_rec)

text \<open>
  Claim C7. Two columns that both trigger a purchase on both dates of a two-row frame,
  one day ahead: the return of the last date is undefined. The evaluator scores each
  column with a buy accuracy of 1, over the one date with a defined return; the analyzer
  scores their combination, which has the same two trigger dates, with a buy accuracy of
  one half, counting the undefined return as a failure. The returns agree.
\<close>

theorem combination_scoring_differs:
  "evaluate_individual_signals
     \<lparr>Close = [10, 11], columns = [(''A_Signal'', [1, 1]), (''B_Signal'', [1, 1])]\<rparr> 1 =
     Inr [\<lparr>Signal = ''A_Signal'', Buy_Signals = 2, Sell_Signals = 0, Total_Signals = 2,
           Buy_Accuracy = Num 1, Sell_Accuracy = NaN, Total_Accuracy = Num 1,
           Buy_Return = Num 10, Sell_Return = NaN\<rparr>,
          \<lparr>Signal = ''B_Signal'', Buy_Signals = 2, Sell_Signals = 0, Total_Signals = 2,
           Buy_Accuracy = Num 1, Sell_Accuracy = NaN, Total_Accuracy = Num 1,
           Buy_Return = Num 10, Sell_Return = NaN\<rparr>] \<and>
   analyze_signal_combinations
     \<lparr>Close = [10, 11], columns = [(''A_Signal'', [1, 1]), (''B_Signal'', [1, 1])]\<rparr>
     [''A_Signal'', ''B_Signal''] 1 =
     Inr [(''A_Signal + B_Signal'',
           \<lparr>Indicators = [''A_Signal'', ''B_Signal''], c_Buy_Signals = 2, c_Sell_Signals = 0,
            c_Buy_Accuracy = Num (1 / 2), c_Sell_Accuracy = NaN, c_Buy_Return = Num 10,
            c_Sell_Return = NaN, c_Total_Signals = 2\<rparr>)]"
proof -
  have "evaluate_individual_signals
     \<lparr>Close = [10, 11], columns = [(''A_Signal'', [1, 1]), (''B_Signal'', [1, 1])]\<rparr> 1 =
     Inr [\<lparr>Signal = ''A_Signal'', Buy_Signals = 2, Sell_Signals = 0, Total_Signals = 2,
           Buy_Accuracy = Num 1, Sell_Accuracy = NaN, Total_Accuracy = Num 1,
           Buy_Return = Num 10, Sell_Return = NaN\<rparr>,
          \<lparr>Signal = ''B_Signal'', Buy_Signals = 2, Sell_Signals = 0, Total_Signals = 2,
           Buy_Accuracy = Num 1, Sell_Accuracy = NaN, Total_Accuracy = Num 1,
           Buy_Return = Num 10, Sell_Return = NaN\<rparr>]"
    unfolding evaluate_individual_signals_def frame.select_convs returns_two
    by (simp add: signal_names List.map_filter_def evaluate_signal_def rows_where_def
        mean_bool_def mean_skipna_def Let_def)
  moreover have "all_combos [''A_Signal'', ''B_Signal''] = [[''A_Signal'', ''B_Signal'']]"
    by (simp add: all_combos_def upt_rec numeral_2_eq_2)
  then have "analyze_signal_combinations
     \<lparr>Close = [10, 11], columns = [(''A_Signal'', [1, 1]), (''B_Signal'', [1, 1])]\<rparr>
     [''A_Signal'', ''B_Signal''] 1 =
     Inr [(''A_Signal + B_Signal'',
           \<lparr>Indicators = [''A_Signal'', ''B_Signal''], c_Buy_Signals = 2, c_Sell_Signals = 0,
            c_Buy_Accuracy = Num (1 / 2), c_Sell_Accuracy = NaN, c_Buy_Return = Num 10,
            c_Sell_Return = NaN, c_Total_Signals = 2\<rparr>)]"
    unfolding analyze_signal_combinations_def frame.select_convs returns_two
    by (simp add: analyze_combo_def combo_mask_def column_def rows_where_def
        mean_bool_def mean_skipna_def Let_def)
  ultimately show ?thesis
    by (rule conjI)
qed

subsection \<open>Composite triggers\<close>

lemma set_combinations:
  "set (combinations xs k) = {ys. subseq ys xs \<and> length ys = k}"
proof (induction xs k rule: combinations.induct)
  case (1 xs)
  then show ?case by auto
next
  case (2 k)
  then show ?case by auto
next
  case (3 x xs k)
  have "ys \<in> set (combinations (x # xs) (Suc k)) \<longleftrightarrow> subseq ys (x # xs) \<and> length ys = Suc k"
    for ys
  proof (cases ys)
    case Nil
    then show ?thesis
      by (auto simp: 3)
  next
    case (Cons y zs)
    show ?thesis
    proof (cases "y = x")
      case True
      with Cons show ?thesis
        using subseq_Cons' [of x zs xs] by (auto simp: 3)
    next
      case False
      with Cons show ?thesis
        by (auto simp: 3)
    qed
  qed
  then show ?case by blast
qed

lemma set_all_combos:
  "set (all_combos inds) =
     {c. subseq c inds \<and> 2 \<le> length c \<and> length c \<le> min (length inds) 3}"
proof (rule set_eqI)
  fix c
  have mem: "c \<in> set (all_combos inds) \<longleftrightarrow>
      subseq c inds \<and> 2 \<le> length c \<and> length c < min (length inds + 1) 4"
    by (auto simp: all_combos_def set_combinations)
  show "c \<in> set (all_combos inds) \<longleftrightarrow>
      c \<in> {c. subseq c inds \<and> 2 \<le> length c \<and> length c \<le> min (length inds) 3}"
  proof (cases "subseq c inds")
    case True
    then have "length c \<le> length inds"
      by (rule list_emb_length)
    with True mem show ?thesis
      by simp linarith
  next
    case False
    with mem show ?thesis by simp
  qed
qed

lemma update_entries: "set (AList.update k v al) \<subseteq> insert (k, v) (set al)"
  by (induction al) auto

lemma column_length:
  assumes "list_all (\<lambda>nc. length (snd nc) = length (Close df)) (columns df)"
    and "column df ind = Some v"
  shows "length v = length (Close df)"
proof (cases "ind = ''Close''")
  case True
  with assms(2) show ?thesis
    by (simp add: column_def)
next
  case False
  with assms(2) have "(ind, v) \<in> set (columns df)"
    by (simp add: column_def map_of_SomeD)
  with assms(1) show ?thesis
    by (auto simp: list_all_iff)
qed

lemma and_columns_sem:
  assumes "and_columns P df msk inds = Inr m"
    and "list_all (\<lambda>nc. length (snd nc) = length (Close df)) (columns df)"
    and "length msk = length (Close df)"
  shows "length m = length (Close df) \<and>
     (\<forall>ind \<in> set inds. column df ind \<noteq> None) \<and>
     (\<forall>d < length (Close df).
        m ! d \<longleftrightarrow> msk ! d \<and> (\<forall>ind \<in> set inds. P (the (column df ind) ! d)))"
  using assms(1,3)
proof (induction inds arbitrary: msk)
  case Nil
  then show ?case by simp
next
  case (Cons ind inds)
  from Cons.prems(1) obtain v where v: "column df ind = Some v"
    and rest: "and_columns P df (map (\<lambda>(a, b). a \<and> b) (zip msk (map P v))) inds = Inr m"
    by (auto split: option.splits)
  from column_length [OF assms(2) v] have len: "length v = length (Close df)" .
  with Cons.prems(2) have
    "length (map (\<lambda>(a, b). a \<and> b) (zip msk (map P v))) = length (Close df)"
    by simp
  from Cons.IH [OF rest this] len Cons.prems(2) v show ?case
    by auto
qed

lemma combo_mask_sem:
  assumes "combo_mask P df combo = Inr m"
    and "list_all (\<lambda>nc. length (snd nc) = length (Close df)) (columns df)"
  shows "length m = length (Close df) \<and>
     (\<forall>d < length (Close df). m ! d \<longleftrightarrow> (\<forall>ind \<in> set combo. P (the (column df ind) ! d)))"
proof -
  from assms(1) obtain first others v where combo: "combo = first # others"
    and v: "column df first = Some v"
    and rest: "and_columns P df (map P v) others = Inr m"
    by (auto simp: combo_mask_def split: list.splits option.splits)
  from column_length [OF assms(2) v] have len: "length (map P v) = length (Close df)"
    by simp
  from and_columns_sem [OF rest assms(2) len] len v show ?thesis
    by (auto simp: combo)
qed

lemma count_rows:
  assumes "length msk = length xs"
  shows "length (rows_where msk xs) = length (filter (\<lambda>d. msk ! d) [0..<length xs])"
  by (simp add: rows_where_index [OF assms])

lemma count_mask:
  "length msk = length xs \<Longrightarrow> length (rows_where msk xs) = length (filter id msk)"
  unfolding rows_where_def
  by (induction msk xs rule: list_induct2) simp_all

lemma mask_index_count:
  assumes "length m = n"
    and "\<forall>d < n. m ! d \<longleftrightarrow> Q d"
  shows "length (filter id m) = length (filter Q [0..<n])"
proof -
  have "map ((!) m) [0..<n] = m"
    unfolding assms(1) [symmetric] by (rule map_nth)
  then have "filter id m = filter id (map ((!) m) [0..<n])"
    by simp
  also have "length \<dots> = length (filter (\<lambda>d. m ! d) [0..<n])"
    by (simp add: filter_map o_def)
  also have "filter (\<lambda>d. m ! d) [0..<n] = filter Q [0..<n]"
    using assms(2) by (intro filter_cong) simp_all
  finally show ?thesis .
qed

lemma analyze_combo_result:
  assumes "analyze_combo df ret c = Inr res"
    and "list_all (\<lambda>nc. length (snd nc) = length (Close df)) (columns df)"
    and "length ret = length (Close df)"
  obtains bm sm where "combo_mask (\<lambda>v. 0 < v) df c = Inr bm"
    and "combo_mask (\<lambda>v. v < 0) df c = Inr sm"
    and "res = None \<longleftrightarrow> length (filter id bm) = 0 \<and> length (filter id sm) = 0"
    and "\<And>row. res = Some row \<Longrightarrow>
          Indicators row = c \<and> c_Buy_Signals row = length (filter id bm) \<and>
          c_Sell_Signals row = length (filter id sm)"
proof -
  from assms(1) obtain bm sm where bm: "combo_mask (\<lambda>v. 0 < v) df c = Inr bm"
    and sm: "combo_mask (\<lambda>v. v < 0) df c = Inr sm"
    by (auto simp: analyze_combo_def split: sum.splits)
  from combo_mask_sem [OF bm assms(2)] combo_mask_sem [OF sm assms(2)] assms(3)
  have "length bm = length ret" and "length sm = length ret"
    by simp_all
  then have cb: "length (rows_where bm ret) = length (filter id bm)"
    and cs: "length (rows_where sm ret) = length (filter id sm)"
    by (simp_all add: count_mask)
  from assms(1) have "res = None \<longleftrightarrow> length (filter id bm) = 0 \<and> length (filter id sm) = 0"
    unfolding analyze_combo_def bm sm sum.case Let_def cb cs
    by (auto split: if_splits)
  moreover from assms(1) have "Indicators row = c \<and> c_Buy_Signals row = length (filter id bm) \<and>
          c_Sell_Signals row = length (filter id sm)" if "res = Some row" for row
    using that unfolding analyze_combo_def bm sm sum.case Let_def cb cs
    by (auto split: if_splits)
  ultimately show thesis
    using that [OF bm sm] by blast
qed

lemma analyze_combos_inv:
  assumes "analyze_combos df ret results combos = Inr out"
  shows "(\<forall>e \<in> set out. e \<in> set results \<or>
            (\<exists>c \<in> set combos. analyze_combo df ret c = Inr (Some (snd e)) \<and>
               fst e = join '' + '' c)) \<and>
     (\<forall>c \<in> set combos. \<exists>res. analyze_combo df ret c = Inr res \<and>
            (res = None \<or> join '' + '' c \<in> fst ` set out)) \<and>
     fst ` set results \<subseteq> fst ` set out"
  using assms
proof (induction combos arbitrary: results)
  case Nil
  then show ?case by simp
next
  case (Cons c combos)
  show ?case
  proof (cases "analyze_combo df ret c")
    case (Inl e)
    with Cons.prems show ?thesis by simp
  next
    case (Inr res)
    show ?thesis
    proof (cases res)
      case None
      with Inr Cons.prems have "analyze_combos df ret results combos = Inr out"
        by simp
      from Cons.IH [OF this] Inr None show ?thesis
        by auto
    next
      case (Some row)
      with Inr Cons.prems have
        rest: "analyze_combos df ret (AList.update (join '' + '' c) row results) combos = Inr out"
        by simp
      note ih = Cons.IH [OF rest]
      have keys: "fst ` set (AList.update (join '' + '' c) row results) =
          {join '' + '' c} \<union> fst ` set results"
        by (rule dom_update)
      have 1: "\<forall>e \<in> set out. e \<in> set results \<or>
            (\<exists>c' \<in> set (c # combos). analyze_combo df ret c' = Inr (Some (snd e)) \<and>
               fst e = join '' + '' c')"
      proof
        fix e assume "e \<in> set out"
        with ih consider "e \<in> set (AList.update (join '' + '' c) row results)"
          | "\<exists>c' \<in> set combos. analyze_combo df ret c' = Inr (Some (snd e)) \<and>
               fst e = join '' + '' c'"
          by blast
        then show "e \<in> set results \<or>
            (\<exists>c' \<in> set (c # combos). analyze_combo df ret c' = Inr (Some (snd e)) \<and>
               fst e = join '' + '' c')"
        proof cases
          case 1
          with update_entries [of "join '' + '' c" row results]
          have "e = (join '' + '' c, row) \<or> e \<in> set results"
            by auto
          with Inr Some show ?thesis by auto
        next
          case 2
          then show ?thesis by auto
        qed
      qed
      have 2: "\<forall>c' \<in> set (c # combos). \<exists>res. analyze_combo df ret c' = Inr res \<and>
            (res = None \<or> join '' + '' c' \<in> fst ` set out)"
        using ih keys Inr by auto
      have 3: "fst ` set results \<subseteq> fst ` set out"
        using ih keys by auto
      from 1 2 3 show ?thesis by blast
    qed
  qed
qed

text \<open>
  Three indicators over three dates: only the first two ever agree, on a purchase on the
  first date and on a sale on the last.
\<close>

lemma combos_three:
  "all_combos [''A'', ''B'', ''C''] =
     [[''A'', ''B''], [''A'', ''C''], [''B'', ''C''], [''A'', ''B'', ''C'']]"
  by (simp add: all_combos_def upt_rec numeral_2_eq_2 numeral_3_eq_3)

lemma analyzer_example:
  "analyze_signal_combinations
     \<lparr>Close = [10, 11, 12],
      columns = [(''A'', [1, 1, - 1]), (''B'', [1, 0, - 1]), (''C'', [0, 0, 0])]\<rparr>
     [''A'', ''B'', ''C''] 1 =
     Inr [(''A + B'',
           \<lparr>Indicators = [''A'', ''B''], c_Buy_Signals = 1, c_Sell_Signals = 1,
            c_Buy_Accuracy = Num 1, c_Sell_Accuracy = Num 0, c_Buy_Return = Num 10,
            c_Sell_Return = NaN, c_Total_Signals = 2\<rparr>)]"
  unfolding analyze_signal_combinations_def frame.select_convs returns_example combos_three
  by (simp add: analyze_combo_def combo_mask_def column_def rows_where_def
      mean_bool_def mean_skipna_def Let_def)

text \<open>
  Claim C8. On a frame whose columns are as long as its index, whenever the analyzer
  returns: the combinations it processes are exactly the subsequences of the indicator
  list of length 2 up to the smaller of 3 and the number of indicators; for each of them
  the composite buy mask holds on exactly the dates where every member is positive and
  the composite sell mask on exactly the dates where every member is negative; a
  combination with both masks empty has no row in the output and any other has a row
  under its name; and every row of the output belongs to one of the combinations,
  carries the counts of its composite triggers, and has at least one trigger.
\<close>

theorem composite_triggers:
  assumes "analyze_signal_combinations df indicators h = Inr out"
    and "list_all (\<lambda>nc. length (snd nc) = length (Close df)) (columns df)"
  shows "set (all_combos indicators) =
       {c. subseq c indicators \<and> 2 \<le> length c \<and> length c \<le> min (length indicators) 3} \<and>
     (\<forall>c \<in> set (all_combos indicators).
        \<exists>bm sm. combo_mask (\<lambda>v. 0 < v) df c = Inr bm \<and> combo_mask (\<lambda>v. v < 0) df c = Inr sm \<and>
          length bm = length (Close df) \<and> length sm = length (Close df) \<and>
          (\<forall>d < length (Close df).
             (bm ! d \<longleftrightarrow> (\<forall>ind \<in> set c. 0 < the (column df ind) ! d)) \<and>
             (sm ! d \<longleftrightarrow> (\<forall>ind \<in> set c. the (column df ind) ! d < 0))) \<and>
          (if length (filter id bm) = 0 \<and> length (filter id sm) = 0
           then c \<notin> Indicators ` snd ` set out
           else join '' + '' c \<in> fst ` set out)) \<and>
     (\<forall>e \<in> set out.
        Indicators (snd e) \<in> set (all_combos indicators) \<and>
        fst e = join '' + '' (Indicators (snd e)) \<and>
        c_Buy_Signals (snd e) =
          length (filter (\<lambda>d. \<forall>ind \<in> set (Indicators (snd e)). 0 < the (column df ind) ! d)
                    [0..<length (Close df)]) \<and>
        c_Sell_Signals (snd e) =
          length (filter (\<lambda>d. \<forall>ind \<in> set (Indicators (snd e)). the (column df ind) ! d < 0)
                    [0..<length (Close df)]) \<and>
        0 < c_Buy_Signals (snd e) + c_Sell_Signals (snd e))"
proof -
  define ret where "ret = forward_returns (Close df) h"
  let ?combos = "all_combos indicators"
  have len: "length ret = length (Close df)"
    by (simp add: ret_def length_forward_returns)
  from assms(1) have run: "analyze_combos df ret [] ?combos = Inr out"
    by (simp add: analyze_signal_combinations_def ret_def)
  from analyze_combos_inv [OF run]
  have origin: "\<forall>e \<in> set out. \<exists>c \<in> set ?combos.
        analyze_combo df ret c = Inr (Some (snd e)) \<and> fst e = join '' + '' c"
    and stored: "\<forall>c \<in> set ?combos. \<exists>res. analyze_combo df ret c = Inr res \<and>
        (res = None \<or> join '' + '' c \<in> fst ` set out)"
    by simp_all
  have part2: "\<exists>bm sm. combo_mask (\<lambda>v. 0 < v) df c = Inr bm \<and> combo_mask (\<lambda>v. v < 0) df c = Inr sm \<and>
          length bm = length (Close df) \<and> length sm = length (Close df) \<and>
          (\<forall>d < length (Close df).
             (bm ! d \<longleftrightarrow> (\<forall>ind \<in> set c. 0 < the (column df ind) ! d)) \<and>
             (sm ! d \<longleftrightarrow> (\<forall>ind \<in> set c. the (column df ind) ! d < 0))) \<and>
          (if length (filter id bm) = 0 \<and> length (filter id sm) = 0
           then c \<notin> Indicators ` snd ` set out
           else join '' + '' c \<in> fst ` set out)"
    if c: "c \<in> set ?combos" for c
  proof -
    from stored c obtain res where res: "analyze_combo df ret c = Inr res"
      and name: "res = None \<or> join '' + '' c \<in> fst ` set out"
      by blast
    from res assms(2) len obtain bm sm where bm: "combo_mask (\<lambda>v. 0 < v) df c = Inr bm"
      and sm: "combo_mask (\<lambda>v. v < 0) df c = Inr sm"
      and none: "res = None \<longleftrightarrow> length (filter id bm) = 0 \<and> length (filter id sm) = 0"
      by (rule analyze_combo_result)
    note semb = combo_mask_sem [OF bm assms(2)] and sems = combo_mask_sem [OF sm assms(2)]
    have omitted: "c \<notin> Indicators ` snd ` set out" if "res = None"
    proof
      assume "c \<in> Indicators ` snd ` set out"
      then obtain e where e: "e \<in> set out" and ind: "Indicators (snd e) = c"
        by auto
      from origin e obtain c' where c': "analyze_combo df ret c' = Inr (Some (snd e))"
        by blast
      from c' assms(2) len have "Indicators (snd e) = c'"
        by (rule analyze_combo_result) simp
      with ind c' res that show False
        by simp
    qed
    from none name omitted
    have "if length (filter id bm) = 0 \<and> length (filter id sm) = 0
           then c \<notin> Indicators ` snd ` set out
           else join '' + '' c \<in> fst ` set out"
      by (cases res) auto
    with bm sm semb sems show ?thesis
      by blast
  qed
  have part3: "Indicators (snd e) \<in> set ?combos \<and>
        fst e = join '' + '' (Indicators (snd e)) \<and>
        c_Buy_Signals (snd e) =
          length (filter (\<lambda>d. \<forall>ind \<in> set (Indicators (snd e)). 0 < the (column df ind) ! d)
                    [0..<length (Close df)]) \<and>
        c_Sell_Signals (snd e) =
          length (filter (\<lambda>d. \<forall>ind \<in> set (Indicators (snd e)). the (column df ind) ! d < 0)
                    [0..<length (Close df)]) \<and>
        0 < c_Buy_Signals (snd e) + c_Sell_Signals (snd e)"
    if e: "e \<in> set out" for e
  proof -
    from origin e obtain c where c: "c \<in> set ?combos"
      and res: "analyze_combo df ret c = Inr (Some (snd e))"
      and name: "fst e = join '' + '' c"
      by blast
    from res assms(2) len obtain bm sm where bm: "combo_mask (\<lambda>v. 0 < v) df c = Inr bm"
      and sm: "combo_mask (\<lambda>v. v < 0) df c = Inr sm"
      and none: "Some (snd e) = None \<longleftrightarrow>
          length (filter id bm) = 0 \<and> length (filter id sm) = 0"
      and row: "Indicators (snd e) = c \<and> c_Buy_Signals (snd e) = length (filter id bm) \<and>
          c_Sell_Signals (snd e) = length (filter id sm)"
      by (rule analyze_combo_result) simp
    from combo_mask_sem [OF bm assms(2)]
    have cb: "length (filter id bm) =
        length (filter (\<lambda>d. \<forall>ind \<in> set c. 0 < the (column df ind) ! d) [0..<length (Close df)])"
      by (intro mask_index_count) simp_all
    from combo_mask_sem [OF sm assms(2)]
    have cs: "length (filter id sm) =
        length (filter (\<lambda>d. \<forall>ind \<in> set c. the (column df ind) ! d < 0) [0..<length (Close df)])"
      by (intro mask_index_count) simp_all
    from none have "0 < length (filter id bm) + length (filter id sm)"
      by simp
    with row have pos: "0 < c_Buy_Signals (snd e) + c_Sell_Signals (snd e)"
      by simp
    from row have ind: "Indicators (snd e) = c"
      and b: "c_Buy_Signals (snd e) = length (filter id bm)"
      and s: "c_Sell_Signals (snd e) = length (filter id sm)"
      by simp_all
    show ?thesis
      unfolding ind b s using c name cb cs pos [unfolded b s] by simp
  qed
  note p1 = set_all_combos [of indicators]
  have p2: "\<forall>c \<in> set (all_combos indicators).
        \<exists>bm sm. combo_mask (\<lambda>v. 0 < v) df c = Inr bm \<and> combo_mask (\<lambda>v. v < 0) df c = Inr sm \<and>
          length bm = length (Close df) \<and> length sm = length (Close df) \<and>
          (\<forall>d < length (Close df).
             (bm ! d \<longleftrightarrow> (\<forall>ind \<in> set c. 0 < the (column df ind) ! d)) \<and>
             (sm ! d \<longleftrightarrow> (\<forall>ind \<in> set c. the (column df ind) ! d < 0))) \<and>
          (if length (filter id bm) = 0 \<and> length (filter id sm) = 0
           then c \<notin> Indicators ` snd ` set out
           else join '' + '' c \<in> fst ` set out)"
    by (intro ballI part2)
  have p3: "\<forall>e \<in> set out.
        Indicators (snd e) \<in> set (all_combos indicators) \<and>
        fst e = join '' + '' (Indicators (snd e)) \<and>
        c_Buy_Signals (snd e) =
          length (filter (\<lambda>d. \<forall>ind \<in> set (Indicators (snd e)). 0 < the (column df ind) ! d)
                    [0..<length (Close df)]) \<and>
        c_Sell_Signals (snd e) =
          length (filter (\<lambda>d. \<forall>ind \<in> set (Indicators (snd e)). the (column df ind) ! d < 0)
                    [0..<length (Close df)]) \<and>
        0 < c_Buy_Signals (snd e) + c_Sell_Signals (snd e)"
    by (intro ballI part3)
  show ?thesis
    by (rule conjI [OF p1 conjI [OF p2 p3]])
qed

theorem composite_triggers_witness:
  "analyze_signal_combinations
     \<lparr>Close = [10, 11, 12],
      columns = [(''A'', [1, 1, - 1]), (''B'', [1, 0, - 1]), (''C'', [0, 0, 0])]\<rparr>
     [''A'', ''B'', ''C''] 1 =
     Inr [(''A + B'',
           \<lparr>Indicators = [''A'', ''B''], c_Buy_Signals = 1, c_Sell_Signals = 1,
            c_Buy_Accuracy = Num 1, c_Sell_Accuracy = Num 0, c_Buy_Return = Num 10,
            c_Sell_Return = NaN, c_Total_Signals = 2\<rparr>)] \<and>
   combo_mask (\<lambda>v. 0 < v)
     \<lparr>Close = [10, 11, 12],
      columns = [(''A'', [1, 1, - 1]), (''B'', [1, 0, - 1]), (''C'', [0, 0, 0])]\<rparr>
     [''A'', ''B''] = Inr [True, False, False] \<and>
   combo_mask (\<lambda>v. 0 < v)
     \<lparr>Close = [10, 11, 12],
      columns = [(''A'', [1, 1, - 1]), (''B'', [1, 0, - 1]), (''C'', [0, 0, 0])]\<rparr>
     [''A'', ''B'', ''C''] = Inr [False, False, False] \<and>
   set (all_combos [''A'', ''B'', ''C'']) =
     {c. subseq c [''A'', ''B'', ''C''] \<and> 2 \<le> length c \<and>
         length c \<le> min (length [''A'', ''B'', ''C'']) 3}"
proof -
  let ?df = "\<lparr>Close = [10, 11, 12],
      columns = [(''A'', [1, 1, - 1]), (''B'', [1, 0, - 1]), (''C'', [0, 0, 0])]\<rparr>"
  have wf: "list_all (\<lambda>nc. length (snd nc) = length (Close ?df)) (columns ?df)"
    by simp
  note subsets = composite_triggers [OF analyzer_example wf, THEN conjunct1]
  have "combo_mask (\<lambda>v. 0 < v) ?df [''A'', ''B''] = Inr [True, False, False]"
    and "combo_mask (\<lambda>v. 0 < v) ?df [''A'', ''B'', ''C''] = Inr [False, False, False]"
    by (simp_all add: combo_mask_def column_def)
  with analyzer_example subsets show ?thesis
    by blast
qed

end
